theory Spec2Isabelle
  imports Main
begin

section \<open>Values shared by the whole backend\<close>

text \<open>
  The backend is the FastAPI application under \<^verbatim>\<open>backend/app\<close>. Its handlers are
  embedded as functions that take the table of users and return the response together
  with the table after the request. Python strings are lists of code points; the
  embedding covers the code points below 256, one \<^typ>\<open>char\<close> each. A clock reading
  (\<^verbatim>\<open>datetime.utcnow()\<close>) is a number of seconds; one request reads the clock once.
\<close>

type_synonym time = int

text \<open>
  \<^verbatim>\<open>HTTPException(status_code, detail)\<close>. The detail is a string, or for a password that
  breaks the policy a dictionary of a message, the errors and the requirements. A Python
  exception that no handler catches leaves the request as \<open>Uncaught\<close>.
\<close>

datatype detail =
    Msg string
  | Policy string "string list" "string list"

datatype error =
    HTTPException nat detail
  | Uncaught string

text \<open>\<^verbatim>\<open>', '.join(xs)\<close> and \<^verbatim>\<open>str(n)\<close> for the messages built with f-strings.\<close>

fun join :: "string \<Rightarrow> string list \<Rightarrow> string" where
  "join sep [] = []"
| "join sep [x] = x"
| "join sep (x # y # ys) = x @ sep @ join sep (y # ys)"

fun str_nat :: "nat \<Rightarrow> string" where
  "str_nat n =
     (if n < 10 then [''0123456789'' ! n]
      else str_nat (n div 10) @ [''0123456789'' ! (n mod 10)])"

definition str_int :: "int \<Rightarrow> string" where
  "str_int i = (if i < 0 then CHR ''-'' # str_nat (nat (- i)) else str_nat (nat i))"

section \<open>security/roles.py\<close>

datatype Role = PENDING | TEACHER | PARAEDUCATOR | ADMIN | SUPER_ADMIN | SUPERUSER

fun role_value :: "Role \<Rightarrow> string" where
  "role_value PENDING = ''pending''"
| "role_value TEACHER = ''teacher''"
| "role_value PARAEDUCATOR = ''paraeducator''"
| "role_value ADMIN = ''admin''"
| "role_value SUPER_ADMIN = ''super_admin''"
| "role_value SUPERUSER = ''superuser''"

text \<open>\<^verbatim>\<open>Role(s)\<close>: the member with that value; \<open>None\<close> stands for the ValueError.\<close>

definition Role_of :: "string \<Rightarrow> Role option" where
  "Role_of s =
     (if s = ''pending'' then Some PENDING
      else if s = ''teacher'' then Some TEACHER
      else if s = ''paraeducator'' then Some PARAEDUCATOR
      else if s = ''admin'' then Some ADMIN
      else if s = ''super_admin'' then Some SUPER_ADMIN
      else if s = ''superuser'' then Some SUPERUSER
      else None)"

section \<open>security/jwt_manager.py\<close>

text \<open>
  A claim value is an integer, a string or null. The payload of a token is a dictionary
  from claim names to values; \<^verbatim>\<open>payload.get(k)\<close> is Python's \<open>None\<close> both for a
  missing key and for a null value.
\<close>

datatype jval = JNull | JInt int | JStr string

type_synonym claims = "string \<rightharpoonup> jval"

definition get :: "claims \<Rightarrow> string \<Rightarrow> jval" where
  "get payload k = (case payload k of None \<Rightarrow> JNull | Some v \<Rightarrow> v)"

text \<open>Python truthiness of a claim value, for \<^verbatim>\<open>if not user_id\<close>.\<close>

fun truthy :: "jval \<Rightarrow> bool" where
  "truthy JNull = False"
| "truthy (JInt i) = (i \<noteq> 0)"
| "truthy (JStr s) = (s \<noteq> [])"

definition opt_str :: "string option \<Rightarrow> jval" where
  "opt_str x = (case x of None \<Rightarrow> JNull | Some s \<Rightarrow> JStr s)"

record TokenPayload =
  tp_user_id :: int
  tp_email :: string
  tp_role :: Role
  tp_first_name :: "string option"
  tp_last_name :: "string option"
  tp_desired_name :: "string option"

text \<open>
  The PyJWT library is not part of the repository. A token is what \<^verbatim>\<open>jwt.encode\<close>
  made from a key and a payload, or a string that is no token at all.
  \<^verbatim>\<open>jwt.decode\<close> gives the payload back when the key is the signing key, the
  \<^verbatim>\<open>iat\<close> claim is not in the future and the \<^verbatim>\<open>exp\<close> claim is in the future;
  \<open>ExpiredSignatureError\<close> is the library's subclass of \<open>InvalidTokenError\<close> for
  the last check.
\<close>

datatype token = Signed (signing_key: string) (payload_of: claims) | Malformed string

datatype jwt_error = ExpiredSignatureError | InvalidTokenError

definition jwt_encode :: "claims \<Rightarrow> string \<Rightarrow> token" where
  "jwt_encode payload key = Signed key payload"

definition validate_iat :: "time \<Rightarrow> claims \<Rightarrow> bool" where
  "validate_iat now payload =
     (case payload ''iat'' of
        None \<Rightarrow> True
      | Some (JInt i) \<Rightarrow> i \<le> now
      | Some _ \<Rightarrow> False)"

definition jwt_decode :: "time \<Rightarrow> token \<Rightarrow> string \<Rightarrow> jwt_error + claims" where
  "jwt_decode now tok key =
     (case tok of
        Malformed s \<Rightarrow> Inl InvalidTokenError
      | Signed k payload \<Rightarrow>
          if k \<noteq> key then Inl InvalidTokenError
          else if \<not> validate_iat now payload then Inl InvalidTokenError
          else (case payload ''exp'' of
                  None \<Rightarrow> Inr payload
                | Some (JInt e) \<Rightarrow>
                    if e \<le> now then Inl ExpiredSignatureError else Inr payload
                | Some _ \<Rightarrow> Inl InvalidTokenError))"

definition ACCESS_TOKEN_EXPIRE_MINUTES :: int where
  "ACCESS_TOKEN_EXPIRE_MINUTES = 30"

definition REFRESH_TOKEN_EXPIRE_DAYS :: int where
  "REFRESH_TOKEN_EXPIRE_DAYS = 7"

text \<open>
  \<^verbatim>\<open>payload.model_dump()\<close>: one key for each field of \<open>TokenPayload\<close>. The role is
  overwritten by its string value in \<open>create_access_token\<close>.
\<close>

definition model_dump :: "TokenPayload \<Rightarrow> claims" where
  "model_dump payload =
     [''user_id'' \<mapsto> JInt (tp_user_id payload),
      ''email'' \<mapsto> JStr (tp_email payload),
      ''role'' \<mapsto> JStr (role_value (tp_role payload)),
      ''first_name'' \<mapsto> opt_str (tp_first_name payload),
      ''last_name'' \<mapsto> opt_str (tp_last_name payload),
      ''desired_name'' \<mapsto> opt_str (tp_desired_name payload)]"

text \<open>\<open>SECRET_KEY\<close> is read from the environment once; it is the parameter \<open>key\<close>.\<close>

definition create_access_token :: "string \<Rightarrow> time \<Rightarrow> TokenPayload \<Rightarrow> token" where
  "create_access_token key now payload =
     jwt_encode
       ((model_dump payload)
          (''type'' \<mapsto> JStr ''access'',
           ''role'' \<mapsto> JStr (role_value (tp_role payload)),
           ''exp'' \<mapsto> JInt (now + ACCESS_TOKEN_EXPIRE_MINUTES * 60),
           ''iat'' \<mapsto> JInt now))
       key"

definition create_refresh_token :: "string \<Rightarrow> time \<Rightarrow> TokenPayload \<Rightarrow> token" where
  "create_refresh_token key now payload =
     jwt_encode
       ([''user_id'' \<mapsto> JInt (tp_user_id payload), ''email'' \<mapsto> JStr (tp_email payload)]
          (''type'' \<mapsto> JStr ''refresh'',
           ''exp'' \<mapsto> JInt (now + REFRESH_TOKEN_EXPIRE_DAYS * 24 * 60 * 60),
           ''iat'' \<mapsto> JInt now))
       key"

definition verify_token :: "string \<Rightarrow> time \<Rightarrow> token \<Rightarrow> jwt_error + claims" where
  "verify_token key now tok = jwt_decode now tok key"

section \<open>security/dependencies.py\<close>

definition get_current_user :: "string \<Rightarrow> time \<Rightarrow> token \<Rightarrow> error + claims" where
  "get_current_user key now tok =
     (case verify_token key now tok of
        Inr payload \<Rightarrow>
          if get payload ''type'' \<noteq> JStr ''access''
          then Inl (HTTPException 401 (Msg ''Invalid token type''))
          else Inr payload
      | Inl ExpiredSignatureError \<Rightarrow> Inl (HTTPException 401 (Msg ''Token has expired''))
      | Inl InvalidTokenError \<Rightarrow> Inl (HTTPException 401 (Msg ''Invalid token'')))"

text \<open>
  \<open>require_role\<close> returns the dependency \<open>role_checker\<close>, which runs
  \<open>get_current_user\<close> first; \<open>role_checker\<close> is the check on its result.
\<close>

definition role_checker :: "Role list \<Rightarrow> claims \<Rightarrow> error + claims" where
  "role_checker allowed_roles current_user =
     (let user_role = get current_user ''role'' in
      if user_role = JStr (role_value SUPERUSER) then Inr current_user
      else
        let allowed_role_values = map role_value allowed_roles in
        if user_role \<notin> set (map JStr allowed_role_values)
        then Inl (HTTPException 403
               (Msg (''Insufficient permissions. Required role: ''
                     @ join '', '' allowed_role_values)))
        else Inr current_user)"

definition require_role :: "Role list \<Rightarrow> string \<Rightarrow> time \<Rightarrow> token \<Rightarrow> error + claims" where
  "require_role allowed_roles key now tok =
     (case get_current_user key now tok of
        Inl e \<Rightarrow> Inl e
      | Inr current_user \<Rightarrow> role_checker allowed_roles current_user)"

section \<open>password_validator.py\<close>

definition MIN_LENGTH :: nat where
  "MIN_LENGTH = 12"

definition REQUIRE_UPPERCASE :: bool where
  "REQUIRE_UPPERCASE = True"

definition REQUIRE_LOWERCASE :: bool where
  "REQUIRE_LOWERCASE = True"

definition REQUIRE_DIGIT :: bool where
  "REQUIRE_DIGIT = True"

definition REQUIRE_SPECIAL :: bool where
  "REQUIRE_SPECIAL = True"

definition SPECIAL_CHARS :: string where
  "SPECIAL_CHARS = ''!@#$%^&*()_+-=[]{}|;:,.<>?''"

text \<open>
  The character classes of the regular expressions \<^verbatim>\<open>[A-Z]\<close>, \<^verbatim>\<open>[a-z]\<close> and
  \<^verbatim>\<open>\d\<close>. Below code point 256 the decimal digits of \<^verbatim>\<open>\d\<close> are \<open>0\<close> to \<open>9\<close>.
\<close>

definition is_upper_AZ :: "char \<Rightarrow> bool" where
  "is_upper_AZ c = (65 \<le> (of_char c :: nat) \<and> (of_char c :: nat) \<le> 90)"

definition is_lower_az :: "char \<Rightarrow> bool" where
  "is_lower_az c = (97 \<le> (of_char c :: nat) \<and> (of_char c :: nat) \<le> 122)"

definition is_digit :: "char \<Rightarrow> bool" where
  "is_digit c = (48 \<le> (of_char c :: nat) \<and> (of_char c :: nat) \<le> 57)"

text \<open>\<^verbatim>\<open>re.search(cls, password)\<close> for a one-character class.\<close>

definition re_search :: "(char \<Rightarrow> bool) \<Rightarrow> string \<Rightarrow> bool" where
  "re_search cls password = list_ex cls password"

definition validate :: "string \<Rightarrow> bool \<times> string list" where
  "validate password =
     (let errors = [];
          errors = (if length password < MIN_LENGTH
                    then errors @ [''Password must be at least '' @ str_nat MIN_LENGTH
                                   @ '' characters long'']
                    else errors);
          errors = (if REQUIRE_UPPERCASE \<and> \<not> re_search is_upper_AZ password
                    then errors @ [''Password must contain at least one uppercase letter'']
                    else errors);
          errors = (if REQUIRE_LOWERCASE \<and> \<not> re_search is_lower_az password
                    then errors @ [''Password must contain at least one lowercase letter'']
                    else errors);
          errors = (if REQUIRE_DIGIT \<and> \<not> re_search is_digit password
                    then errors @ [''Password must contain at least one digit'']
                    else errors);
          errors = (if REQUIRE_SPECIAL \<and> \<not> list_ex (\<lambda>char. char \<in> set SPECIAL_CHARS) password
                    then errors @ [''Password must contain at least one special character (''
                                   @ SPECIAL_CHARS @ '')'']
                    else errors)
      in (length errors = 0, errors))"

text \<open>
  \<^verbatim>\<open>str.lower()\<close> on the code points below 256: the letters \<open>A\<close> to \<open>Z\<close> and the
  accented capitals 192 to 222 (215, the multiplication sign, apart) move up by 32.
\<close>

definition lower_char :: "char \<Rightarrow> char" where
  "lower_char c =
     (let n = (of_char c :: nat) in
      if (65 \<le> n \<and> n \<le> 90) \<or> (192 \<le> n \<and> n \<le> 222 \<and> n \<noteq> 215)
      then char_of (n + 32) else c)"

definition lower :: "string \<Rightarrow> string" where
  "lower s = map lower_char s"

text \<open>\<^verbatim>\<open>sub in s\<close> on strings: \<open>sub\<close> occurs in \<open>s\<close> as a contiguous run.\<close>

fun starts_with :: "string \<Rightarrow> string \<Rightarrow> bool" where
  "starts_with s [] = True"
| "starts_with [] (c # sub) = False"
| "starts_with (d # s) (c # sub) = (d = c \<and> starts_with s sub)"

fun str_in :: "string \<Rightarrow> string \<Rightarrow> bool" where
  "str_in sub [] = (sub = [])"
| "str_in sub (d # s) = (starts_with (d # s) sub \<or> str_in sub s)"

record validation_result =
  is_valid :: bool
  errors :: "string list"
  strength_guide :: "string list"

text \<open>The default of \<open>username\<close> is the empty string.\<close>

definition validate_password :: "string \<Rightarrow> string \<Rightarrow> validation_result" where
  "validate_password password username =
     (let (is_valid, errors) = validate password;
          (is_valid, errors) =
            (if username \<noteq> [] \<and> str_in (lower username) (lower password)
             then (False, errors @ [''Password should not contain your username or email''])
             else (is_valid, errors));
          strength_guide =
            [''At least '' @ str_nat MIN_LENGTH @ '' characters long'',
             ''Contains uppercase and lowercase letters'',
             ''Contains at least one number'',
             ''Contains at least one special character ('' @ SPECIAL_CHARS @ '')'',
             ''Does not contain your username or email'']
      in \<lparr>is_valid = is_valid, errors = errors, strength_guide = strength_guide\<rparr>)"

section \<open>models.py: the users table\<close>

text \<open>
  The passlib library is not part of the repository. \<^verbatim>\<open>pwd_context.hash\<close> draws a
  salt and returns a digest of the Argon2 scheme; \<^verbatim>\<open>pwd_context.verify\<close> accepts
  exactly the password the digest was made from.
\<close>

datatype digest = Argon2 nat string

text \<open>
  One row of \<open>users\<close>; \<open>uid\<close> is the column \<open>id\<close>. The columns
  \<open>is_superuser\<close>, \<open>created_at\<close> and \<open>updated_at\<close> are left out: no handler
  below decides anything by them. The two columns that record the acting administrator
  hold the claim value the handler assigns.
\<close>

record user =
  uid :: int
  email :: string
  username :: string
  first_name :: "string option"
  last_name :: "string option"
  desired_name :: "string option"
  phone :: "string option"
  hashed_password :: digest
  is_active :: bool
  password_reset_token :: "string option"
  password_reset_expires :: "time option"
  password_reset_requested_at :: "time option"
  role :: string
  is_approved :: bool
  approved_at :: "time option"
  approved_by_id :: jval
  approval_notes :: "string option"
  is_rejected :: bool
  rejected_at :: "time option"
  rejected_by_id :: jval
  rejection_reason :: "string option"
  registered_date :: "time option"
  profile_image :: "string option"
  timezone :: "string option"

text \<open>
  The table is the list of its rows. \<^verbatim>\<open>db.query(User).filter(P).first()\<close> is the first
  row with \<open>P\<close>. A query reads the table and does not fail. \<^verbatim>\<open>db.commit()\<close> writes
  the changed row back, or raises: \<open>IntegrityError\<close> is SQLAlchemy's subclass of
  \<open>SQLAlchemyError\<close> for a broken constraint. Which of the three happens is an input
  of the handler; after a failed commit the table is as it was.
\<close>

type_synonym store = "user list"

datatype commit = Committed | IntegrityError | SQLAlchemyError

definition query_first :: "(user \<Rightarrow> bool) \<Rightarrow> store \<Rightarrow> user option" where
  "query_first P db = find P db"

definition update_row :: "user \<Rightarrow> store \<Rightarrow> store" where
  "update_row u db = map (\<lambda>r. if uid r = uid u then u else r) db"

definition delete_row :: "user \<Rightarrow> store \<Rightarrow> store" where
  "delete_row u db = filter (\<lambda>r. uid r \<noteq> uid u) db"

text \<open>The primary key the table gives to a new row.\<close>

definition next_id :: "store \<Rightarrow> int" where
  "next_id db = fold max (map uid db) 0 + 1"

section \<open>db.py\<close>

definition hash_password :: "nat \<Rightarrow> string \<Rightarrow> digest" where
  "hash_password salt password = Argon2 salt password"

definition verify_password :: "string \<Rightarrow> digest \<Rightarrow> bool" where
  "verify_password plain_password hashed = (case hashed of Argon2 salt p \<Rightarrow> p = plain_password)"

definition get_user_by_email :: "store \<Rightarrow> string \<Rightarrow> user option" where
  "get_user_by_email db e = query_first (\<lambda>u. email u = e) db"

definition get_user_by_username :: "store \<Rightarrow> string \<Rightarrow> user option" where
  "get_user_by_username db n = query_first (\<lambda>u. username u = n) db"

text \<open>Python truthiness of an optional string: \<open>None\<close> and the empty string are false.\<close>

definition nonempty :: "string option \<Rightarrow> bool" where
  "nonempty x = (case x of None \<Rightarrow> False | Some s \<Rightarrow> s \<noteq> [])"

definition user_exists :: "store \<Rightarrow> string option \<Rightarrow> string option \<Rightarrow> bool" where
  "user_exists db e n =
     (if nonempty e then query_first (\<lambda>u. Some (email u) = e) db \<noteq> None
      else if nonempty n then query_first (\<lambda>u. Some (username u) = n) db \<noteq> None
      else False)"

definition authenticate_user :: "store \<Rightarrow> string \<Rightarrow> string \<Rightarrow> user option" where
  "authenticate_user db e password =
     (case get_user_by_email db e of
        None \<Rightarrow> None
      | Some user \<Rightarrow>
          if \<not> verify_password password (hashed_password user) then None
          else Some user)"

text \<open>
  \<open>create_user\<close>: the row \<^verbatim>\<open>User(...)\<close> it builds, with the column defaults of
  \<open>models.py\<close> for what it does not set, then the commit. The defaults of its parameters \<open>role\<close> and
  \<open>is_approved\<close> are \<open>default_role\<close> and \<open>default_is_approved\<close>.
\<close>

definition default_role :: string where
  "default_role = ''pending''"

definition default_is_approved :: bool where
  "default_is_approved = False"

definition User ::
  "int \<Rightarrow> nat \<Rightarrow> string \<Rightarrow> string \<Rightarrow> string \<Rightarrow> string option \<Rightarrow> string option
     \<Rightarrow> string \<Rightarrow> bool \<Rightarrow> user" where
  "User i salt e n password fn ln r appr =
     \<lparr>uid = i, email = e, username = n, first_name = fn, last_name = ln,
      desired_name = None, phone = None,
      hashed_password = hash_password salt password, is_active = True,
      password_reset_token = None, password_reset_expires = None,
      password_reset_requested_at = None,
      role = r, is_approved = appr, approved_at = None, approved_by_id = JNull,
      approval_notes = None, is_rejected = False, rejected_at = None,
      rejected_by_id = JNull, rejection_reason = None, registered_date = None,
      profile_image = None, timezone = None\<rparr>"

definition create_user ::
  "commit \<Rightarrow> store \<Rightarrow> nat \<Rightarrow> string \<Rightarrow> string \<Rightarrow> string \<Rightarrow> string option \<Rightarrow> string option
     \<Rightarrow> string \<Rightarrow> bool \<Rightarrow> commit + (user \<times> store)" where
  "create_user c db salt e n password fn ln r appr =
     (let user = User (next_id db) salt e n password fn ln r appr in
      case c of
        Committed \<Rightarrow> Inr (user, db @ [user])
      | failed \<Rightarrow> Inl failed)"

text \<open>
  The parameters \<open>create_user\<close> declares. A call that names any other keyword raises
  \<open>TypeError\<close> before the body runs.
\<close>

definition create_user_params :: "string list" where
  "create_user_params =
     [''db'', ''email'', ''username'', ''password'', ''first_name'', ''last_name'',
      ''role'', ''is_approved'']"

definition unexpected_keywords :: "string list \<Rightarrow> string list" where
  "unexpected_keywords kws = filter (\<lambda>k. k \<notin> set create_user_params) kws"

section \<open>routers/auth.py\<close>

subsection \<open>Helpers and response models\<close>

record UserInfo =
  ui_id :: int
  ui_email :: string
  ui_username :: string
  ui_first_name :: "string option"
  ui_last_name :: "string option"
  ui_desired_name :: "string option"
  ui_role :: string
  ui_is_approved :: bool
  ui_profile_image :: "string option"

text \<open>
  The response models, one constructor each, with the fields in the order of the source.
  \<open>RegisterResponse\<close> is without \<open>created_at\<close>, a column that is left out.
  \<open>Exists\<close> is the dictionary of \<open>check_email\<close>, \<open>Educator\<close> the dictionary of the
  educator handlers (id, first name, last name, email, role, phone, username, desired
  name), \<open>Deleted\<close> the one of \<open>delete_educator\<close>.
\<close>

datatype response =
    LoginResponse token string UserInfo
  | RefreshTokenResponse token string
  | RegisterResponse int string string string string string bool string
  | Exists bool
  | ForgotPasswordResponse string string
  | ResetPasswordResponse string string
  | Me UserInfo
  | ApproveUserResponse string int string bool
  | RejectUserResponse string int bool
  | Educator int string string string string string string "string option"
  | Deleted string int
  | Updated user

text \<open>\<^verbatim>\<open>a or b\<close> on optional strings, \<^verbatim>\<open>str(x)\<close> and \<^verbatim>\<open>x or ""\<close>.\<close>

definition py_or :: "string option \<Rightarrow> string option \<Rightarrow> string option" where
  "py_or a b = (if nonempty a then a else b)"

definition str_opt :: "string option \<Rightarrow> string" where
  "str_opt x = (case x of None \<Rightarrow> ''None'' | Some s \<Rightarrow> s)"

definition or_empty :: "string option \<Rightarrow> string" where
  "or_empty x = (case x of None \<Rightarrow> [] | Some s \<Rightarrow> s)"

text \<open>\<open>base64.b64encode\<close> is the parameter \<open>b64encode\<close>.\<close>

definition encode_profile_image :: "(string \<Rightarrow> string) \<Rightarrow> string option \<Rightarrow> string option" where
  "encode_profile_image b64encode image_data =
     (if \<not> nonempty image_data then None else map_option b64encode image_data)"

definition build_user_info :: "(string \<Rightarrow> string) \<Rightarrow> user \<Rightarrow> UserInfo" where
  "build_user_info b64encode user =
     (let profile_image_b64 =
            (if profile_image user \<noteq> None
             then encode_profile_image b64encode (profile_image user) else None)
      in \<lparr>ui_id = uid user, ui_email = email user, ui_username = username user,
          ui_first_name = first_name user, ui_last_name = last_name user,
          ui_desired_name = desired_name user, ui_role = role user,
          ui_is_approved = is_approved user, ui_profile_image = profile_image_b64\<rparr>)"

text \<open>The \<open>TokenPayload\<close> both \<open>login\<close> and \<open>refresh_token\<close> build from a row.\<close>

definition token_payload :: "user \<Rightarrow> Role \<Rightarrow> TokenPayload" where
  "token_payload user r =
     \<lparr>tp_user_id = uid user, tp_email = email user, tp_role = r,
      tp_first_name = first_name user, tp_last_name = last_name user,
      tp_desired_name = desired_name user\<rparr>"

subsection \<open>login and refresh\<close>

text \<open>
  \<open>login\<close> takes the three fields of \<open>LoginRequest\<close>. \<open>Role(str(user.role))\<close> raises
  ValueError for a role that is no member, which the handler turns into 500.
\<close>

definition login ::
  "string \<Rightarrow> time \<Rightarrow> (string \<Rightarrow> string) \<Rightarrow> store
     \<Rightarrow> string option \<Rightarrow> string option \<Rightarrow> string \<Rightarrow> error + response" where
  "login key now b64encode db cred_email cred_username cred_password =
     (let email_or_username = py_or cred_email cred_username in
      case email_or_username of
        None \<Rightarrow> Inl (HTTPException 400 (Msg ''Either email or username must be provided''))
      | Some ident \<Rightarrow>
          if ident = []
          then Inl (HTTPException 400 (Msg ''Either email or username must be provided''))
          else
            (case authenticate_user db ident cred_password of
               None \<Rightarrow> Inl (HTTPException 401 (Msg ''Invalid email/username or password''))
             | Some user \<Rightarrow>
                 (case Role_of (role user) of
                    None \<Rightarrow>
                      Inl (HTTPException 500 (Msg ''Failed to generate authentication token''))
                  | Some r \<Rightarrow>
                      let access_token = create_access_token key now (token_payload user r);
                          user_info = build_user_info b64encode user
                      in Inr (LoginResponse access_token ''bearer'' user_info))))"

text \<open>
  \<open>refresh_token\<close>: every ValueError and every error of the token library inside the
  \<^verbatim>\<open>try\<close> block ends in the same 401.
\<close>

definition refresh_token :: "string \<Rightarrow> time \<Rightarrow> store \<Rightarrow> token \<Rightarrow> error + response" where
  "refresh_token key now db request_refresh_token =
     (let unauthorized = Inl (HTTPException 401 (Msg ''Invalid or expired refresh token'')) in
      case verify_token key now request_refresh_token of
        Inl e \<Rightarrow> unauthorized
      | Inr payload \<Rightarrow>
          if get payload ''type'' \<noteq> JStr ''refresh'' then unauthorized
          else
            let user_id = get payload ''sub'' in
            if \<not> truthy user_id then unauthorized
            else
              (case query_first (\<lambda>u. JInt (uid u) = user_id) db of
                 None \<Rightarrow> unauthorized
               | Some user \<Rightarrow>
                   if is_approved user \<noteq> True then unauthorized
                   else
                     (case Role_of (role user) of
                        None \<Rightarrow> unauthorized
                      | Some r \<Rightarrow>
                          let access_token = create_access_token key now (token_payload user r)
                          in Inr (RefreshTokenResponse access_token ''bearer''))))"

subsection \<open>register and check-email\<close>

record RegisterRequest =
  rr_email :: string
  rr_username :: string
  rr_password :: string
  rr_first_name :: string
  rr_last_name :: string
  rr_desired_name :: string
  rr_phone :: "string option"

text \<open>\<^verbatim>\<open>email.split("@")[0]\<close>: what stands before the first \<open>@\<close>.\<close>

definition local_part :: "string \<Rightarrow> string" where
  "local_part e = takeWhile (\<lambda>c. c \<noteq> CHR ''@'') e"

text \<open>
  \<open>register\<close> calls \<open>create_user\<close> with the keywords \<open>desired_name\<close> and \<open>phone\<close>.
  Where the call binds, the new row has a role, so the handler's repair of a missing role
  does nothing, and a failed commit is the 500 of the \<open>SQLAlchemyError\<close> handler.
\<close>

definition register ::
  "commit \<Rightarrow> nat \<Rightarrow> store \<Rightarrow> RegisterRequest \<Rightarrow> (error + response) \<times> store" where
  "register c salt db user_data =
     (let validation_result =
            validate_password (rr_password user_data) (local_part (rr_email user_data)) in
      if \<not> is_valid validation_result
      then (Inl (HTTPException 400
                  (Policy ''Password does not meet security requirements''
                     (errors validation_result) (strength_guide validation_result))), db)
      else if user_exists db (Some (rr_email user_data)) None
      then (Inl (HTTPException 409
                  (Msg ''Email already registered. Please login or reset your password.'')), db)
      else if get_user_by_username db (rr_username user_data) \<noteq> None
      then (Inl (HTTPException 409
                  (Msg ''Username already taken. Please choose a different username.'')), db)
      else if unexpected_keywords
                [''db'', ''email'', ''username'', ''password'', ''first_name'', ''last_name'',
                 ''desired_name'', ''phone''] \<noteq> []
      then (Inl (Uncaught ''TypeError''), db)
      else
        (case create_user c db salt (rr_email user_data) (rr_username user_data)
                (rr_password user_data) (Some (rr_first_name user_data))
                (Some (rr_last_name user_data)) default_role default_is_approved of
           Inl failed \<Rightarrow>
             (Inl (HTTPException 500 (Msg ''Failed to create user account'')), db)
         | Inr (new_user, db') \<Rightarrow>
             (Inr (RegisterResponse (uid new_user) (email new_user)
                     (str_opt (first_name new_user)) (str_opt (last_name new_user))
                     (str_opt (desired_name new_user)) (role new_user) (is_approved new_user)
                     ''Account created successfully. You will receive an email once an administrator approves your account.''),
              db')))"

definition check_email :: "store \<Rightarrow> string \<Rightarrow> response" where
  "check_email db e = (let exists = user_exists db (Some e) None in Exists exists)"

subsection \<open>Password reset\<close>

text \<open>
  \<open>forgot_password\<close>. Its inputs beyond the request: the outcome of the commit, whether
  the notification raises, the ticket \<^verbatim>\<open>secrets.token_urlsafe(32)\<close> drew, and
  \<open>expiry_hours\<close>, the integer the environment gives for
  \<open>PASSWORD_RESET_TOKEN_EXPIRY_HOURS\<close> (1 when unset), \<open>None\<close> when \<^verbatim>\<open>int\<close>
  raises on its text. The handler has three \<^verbatim>\<open>return\<close> statements, one in the body
  and one in each \<^verbatim>\<open>except\<close> clause.
\<close>

definition forgot_password ::
  "commit \<Rightarrow> bool \<Rightarrow> string \<Rightarrow> int option \<Rightarrow> time \<Rightarrow> store \<Rightarrow> string \<Rightarrow> response \<times> store" where
  "forgot_password c mail_raises reset_token expiry_hours now db request_email =
     (case get_user_by_email db request_email of
        None \<Rightarrow>
          (ForgotPasswordResponse
             ''If this email is registered, you will receive a password reset link shortly.''
             request_email, db)
      | Some user \<Rightarrow>
          (case expiry_hours of
             None \<Rightarrow>
               (ForgotPasswordResponse
                  ''If this email is registered, you will receive a password reset link shortly.''
                  request_email, db)
           | Some h \<Rightarrow>
               let expires_at = now + h * 3600;
                   user' = user
                     \<lparr>password_reset_token := Some reset_token,
                      password_reset_expires := Some expires_at,
                      password_reset_requested_at := Some now\<rparr>
               in
               (case c of
                  Committed \<Rightarrow>
                    if mail_raises
                    then (ForgotPasswordResponse
                            ''If this email is registered, you will receive a password reset link shortly.''
                            request_email, update_row user' db)
                    else (ForgotPasswordResponse
                            ''If this email is registered, you will receive a password reset link shortly.''
                            request_email, update_row user' db)
                | failed \<Rightarrow>
                    (ForgotPasswordResponse
                       ''If this email is registered, you will receive a password reset link shortly.''
                       request_email, db))))"

text \<open>
  \<open>reset_password\<close>. The success message of the source opens with a check mark, a code
  point beyond 255, which is left out.
\<close>

definition reset_password ::
  "commit \<Rightarrow> nat \<Rightarrow> time \<Rightarrow> store \<Rightarrow> string \<Rightarrow> string \<Rightarrow> (error + response) \<times> store" where
  "reset_password c salt now db request_token new_password =
     (let validation_result = validate_password new_password [] in
      if \<not> is_valid validation_result
      then (Inl (HTTPException 400
                  (Policy ''New password does not meet security requirements''
                     (errors validation_result) (strength_guide validation_result))), db)
      else
        (case query_first (\<lambda>u. password_reset_token u = Some request_token) db of
           None \<Rightarrow>
             (Inl (HTTPException 400
                     (Msg ''Invalid or expired password reset link. Please request a new one.'')),
              db)
         | Some user \<Rightarrow>
             if (case password_reset_expires user of None \<Rightarrow> True | Some e \<Rightarrow> e < now)
             then (Inl (HTTPException 400
                          (Msg ''Password reset link has expired. Please request a new one.'')),
                   db)
             else
               let user' = user
                     \<lparr>hashed_password := hash_password salt new_password,
                      password_reset_token := None,
                      password_reset_expires := None,
                      password_reset_requested_at := None\<rparr>
               in
               (case c of
                  Committed \<Rightarrow>
                    (Inr (ResetPasswordResponse
                            '' Your password has been successfully reset. You can now login with your new password.''
                            (email user)),
                     update_row user' db)
                | failed \<Rightarrow>
                    (Inl (HTTPException 500 (Msg ''Failed to reset password'')), db))))"

subsection \<open>The current user\<close>

definition get_me :: "(string \<Rightarrow> string) \<Rightarrow> store \<Rightarrow> claims \<Rightarrow> error + response" where
  "get_me b64encode db current_user =
     (let user_id = get current_user ''sub'' in
      if \<not> truthy user_id then Inl (HTTPException 401 (Msg ''Invalid token''))
      else
        (case query_first (\<lambda>u. JInt (uid u) = user_id) db of
           None \<Rightarrow> Inl (HTTPException 404 (Msg ''User not found''))
         | Some db_user \<Rightarrow> Inr (Me (build_user_info b64encode db_user))))"

text \<open>\<^verbatim>\<open>GET /auth/me\<close>: the dependency \<open>get_current_user\<close>, then the handler.\<close>

definition get_me_endpoint ::
  "string \<Rightarrow> time \<Rightarrow> (string \<Rightarrow> string) \<Rightarrow> store \<Rightarrow> token \<Rightarrow> error + response" where
  "get_me_endpoint key now b64encode db tok =
     (case get_current_user key now tok of
        Inl e \<Rightarrow> Inl e
      | Inr current_user \<Rightarrow> get_me b64encode db current_user)"

subsection \<open>Approval and rejection\<close>

record ApproveUserRequest =
  ap_user_id :: int
  ap_approval_notes :: "string option"
  ap_role :: string

text \<open>
  The inner \<^verbatim>\<open>try\<close> of \<open>approve_user\<close>: \<open>Role(request.role)\<close>, with the ValueError
  of a string that is no role and the one raised for \<open>PENDING\<close>.
\<close>

definition requested_role_of :: "string \<Rightarrow> Role option" where
  "requested_role_of r =
     (case Role_of r of
        None \<Rightarrow> None
      | Some requested_role \<Rightarrow> if requested_role = PENDING then None else Some requested_role)"

definition approve_user ::
  "commit \<Rightarrow> time \<Rightarrow> store \<Rightarrow> ApproveUserRequest \<Rightarrow> claims \<Rightarrow> (error + response) \<times> store" where
  "approve_user c now db request current_user =
     (case query_first (\<lambda>u. uid u = ap_user_id request) db of
        None \<Rightarrow>
          (Inl (HTTPException 404
                 (Msg (''User with ID '' @ str_int (ap_user_id request) @ '' not found''))), db)
      | Some user \<Rightarrow>
          (case requested_role_of (ap_role request) of
             None \<Rightarrow>
               (Inl (HTTPException 400 (Msg (''Invalid role: '' @ ap_role request))), db)
           | Some requested_role \<Rightarrow>
               let user' = user
                     \<lparr>is_approved := True,
                      approved_at := Some now,
                      registered_date := Some now,
                      approved_by_id := get current_user ''sub'',
                      role := role_value requested_role,
                      is_rejected := False,
                      rejection_reason := None,
                      approval_notes := ap_approval_notes request\<rparr>
               in
               (case c of
                  Committed \<Rightarrow>
                    (Inr (ApproveUserResponse
                            (''User '' @ email user' @ '' has been approved as ''
                             @ role_value requested_role)
                            (uid user') (role user') True),
                     update_row user' db)
                | failed \<Rightarrow>
                    (Inl (HTTPException 500 (Msg ''Failed to approve user'')), db))))"

text \<open>
  The administrator endpoints depend on \<open>require_role(Role.ADMIN, Role.SUPER_ADMIN)\<close>.
\<close>

definition admin_roles :: "Role list" where
  "admin_roles = [ADMIN, SUPER_ADMIN]"

definition approve_user_endpoint ::
  "string \<Rightarrow> commit \<Rightarrow> time \<Rightarrow> store \<Rightarrow> token \<Rightarrow> ApproveUserRequest
     \<Rightarrow> (error + response) \<times> store" where
  "approve_user_endpoint key c now db tok request =
     (case require_role admin_roles key now tok of
        Inl e \<Rightarrow> (Inl e, db)
      | Inr current_user \<Rightarrow> approve_user c now db request current_user)"

definition reject_user ::
  "commit \<Rightarrow> time \<Rightarrow> store \<Rightarrow> int \<Rightarrow> string \<Rightarrow> claims \<Rightarrow> (error + response) \<times> store" where
  "reject_user c now db request_user_id request_rejection_reason current_user =
     (case query_first (\<lambda>u. uid u = request_user_id) db of
        None \<Rightarrow>
          (Inl (HTTPException 404
                 (Msg (''User with ID '' @ str_int request_user_id @ '' not found''))), db)
      | Some user \<Rightarrow>
          let user' = user
                \<lparr>is_rejected := True,
                 rejected_at := Some now,
                 rejected_by_id := get current_user ''sub'',
                 rejection_reason := Some request_rejection_reason,
                 is_active := False\<rparr>
          in
          (case c of
             Committed \<Rightarrow>
               (Inr (RejectUserResponse (''User '' @ email user' @ '' has been rejected'')
                       (uid user') True),
                update_row user' db)
           | failed \<Rightarrow>
               (Inl (HTTPException 500 (Msg ''Failed to reject user'')), db)))"

subsection \<open>Educators\<close>

record CreateEducatorRequest =
  ce_first_name :: string
  ce_last_name :: string
  ce_email :: string
  ce_role :: string
  ce_phone :: string
  ce_username :: string
  ce_password :: string
  ce_desired_name :: "string option"

definition valid_roles :: "string list" where
  "valid_roles = [role_value TEACHER, role_value PARAEDUCATOR, role_value ADMIN]"

definition educator_response :: "user \<Rightarrow> response" where
  "educator_response u =
     Educator (uid u) (or_empty (first_name u)) (or_empty (last_name u)) (email u) (role u)
       (or_empty (phone u)) (username u) (desired_name u)"

text \<open>
  \<open>create_educator\<close> calls \<open>create_user\<close> with the keywords \<open>desired_name\<close> and
  \<open>phone\<close> too. Where the call binds there are two commits, the one inside
  \<open>create_user\<close> and the handler's own; \<open>c\<close> and \<open>c2\<close> are their outcomes.
\<close>

definition create_educator ::
  "commit \<Rightarrow> commit \<Rightarrow> nat \<Rightarrow> time \<Rightarrow> store \<Rightarrow> CreateEducatorRequest \<Rightarrow> claims
     \<Rightarrow> (error + response) \<times> store" where
  "create_educator c c2 salt now db request current_user =
     (if ce_role request \<notin> set valid_roles
      then (Inl (HTTPException 400
                  (Msg (''Invalid role. Must be one of: '' @ join '', '' valid_roles))), db)
      else if query_first (\<lambda>u. email u = ce_email request) db \<noteq> None
      then (Inl (HTTPException 400 (Msg ''Email already exists'')), db)
      else if ce_username request \<noteq> []
              \<and> query_first (\<lambda>u. username u = ce_username request) db \<noteq> None
      then (Inl (HTTPException 400 (Msg ''Username already exists'')), db)
      else if unexpected_keywords
                [''db'', ''email'', ''password'', ''first_name'', ''last_name'', ''username'',
                 ''desired_name'', ''phone''] \<noteq> []
      then (Inl (Uncaught ''TypeError''), db)
      else
        (case create_user c db salt (ce_email request) (ce_username request)
                (ce_password request) (Some (ce_first_name request))
                (Some (ce_last_name request)) default_role default_is_approved of
           Inl failed \<Rightarrow> (Inl (HTTPException 500 (Msg ''Failed to create educator'')), db)
         | Inr (created, db') \<Rightarrow>
             let created' = created
                   \<lparr>role := ce_role request,
                    is_approved := True,
                    approved_at := Some now,
                    registered_date := Some now,
                    approved_by_id := get current_user ''sub''\<rparr>
             in
             (case c2 of
                Committed \<Rightarrow> (Inr (educator_response created'), update_row created' db')
              | failed \<Rightarrow>
                  (Inl (HTTPException 500 (Msg ''Failed to create educator'')), db'))))"

record UpdateEducatorRequest =
  ue_first_name :: "string option"
  ue_last_name :: "string option"
  ue_email :: "string option"
  ue_role :: "string option"
  ue_phone :: "string option"
  ue_username :: "string option"
  ue_password :: "string option"
  ue_desired_name :: "string option"

text \<open>
  \<open>update_educator\<close>. The block that updates the fields is \<open>update_fields\<close>: a
  field of the request that is not \<open>None\<close> overwrites the column. The hash of a new
  password is assigned to \<open>password_hash\<close>, which is no column of the table, so the
  row keeps its \<open>hashed_password\<close>.
\<close>

definition update_fields :: "UpdateEducatorRequest \<Rightarrow> user \<Rightarrow> user" where
  "update_fields request educator =
     (let educator = (case ue_first_name request of
                        None \<Rightarrow> educator | Some v \<Rightarrow> educator\<lparr>first_name := Some v\<rparr>);
          educator = (case ue_last_name request of
                        None \<Rightarrow> educator | Some v \<Rightarrow> educator\<lparr>last_name := Some v\<rparr>);
          educator = (case ue_email request of
                        None \<Rightarrow> educator | Some v \<Rightarrow> educator\<lparr>email := v\<rparr>);
          educator = (case ue_role request of
                        None \<Rightarrow> educator | Some v \<Rightarrow> educator\<lparr>role := v\<rparr>);
          educator = (case ue_phone request of
                        None \<Rightarrow> educator | Some v \<Rightarrow> educator\<lparr>phone := Some v\<rparr>);
          educator = (case ue_username request of
                        None \<Rightarrow> educator | Some v \<Rightarrow> educator\<lparr>username := v\<rparr>);
          educator = (case ue_desired_name request of
                        None \<Rightarrow> educator | Some v \<Rightarrow> educator\<lparr>desired_name := Some v\<rparr>)
      in educator)"

definition update_educator ::
  "commit \<Rightarrow> store \<Rightarrow> int \<Rightarrow> UpdateEducatorRequest \<Rightarrow> (error + response) \<times> store" where
  "update_educator c db educator_id request =
     (case query_first (\<lambda>u. uid u = educator_id) db of
        None \<Rightarrow>
          (Inl (HTTPException 404
                 (Msg (''Educator with ID '' @ str_int educator_id @ '' not found''))), db)
      | Some educator \<Rightarrow>
          if nonempty (ue_role request) \<and> or_empty (ue_role request) \<notin> set valid_roles
          then (Inl (HTTPException 400
                      (Msg (''Invalid role. Must be one of: '' @ join '', '' valid_roles))), db)
          else if nonempty (ue_email request) \<and> ue_email request \<noteq> Some (email educator)
                  \<and> query_first (\<lambda>u. Some (email u) = ue_email request) db \<noteq> None
          then (Inl (HTTPException 400 (Msg ''Email already exists'')), db)
          else if nonempty (ue_username request)
                  \<and> ue_username request \<noteq> Some (username educator)
                  \<and> query_first (\<lambda>u. Some (username u) = ue_username request) db \<noteq> None
          then (Inl (HTTPException 400 (Msg ''Username already exists'')), db)
          else
            let educator = update_fields request educator in
            (case c of
               Committed \<Rightarrow> (Inr (educator_response educator), update_row educator db)
             | failed \<Rightarrow>
                 (Inl (HTTPException 500 (Msg ''Failed to update educator'')), db)))"

definition delete_educator ::
  "commit \<Rightarrow> store \<Rightarrow> int \<Rightarrow> (error + response) \<times> store" where
  "delete_educator c db educator_id =
     (case query_first (\<lambda>u. uid u = educator_id) db of
        None \<Rightarrow>
          (Inl (HTTPException 404
                 (Msg (''Educator with ID '' @ str_int educator_id @ '' not found''))), db)
      | Some educator \<Rightarrow>
          (case c of
             Committed \<Rightarrow>
               (Inr (Deleted (''Educator '' @ email educator @ '' has been deleted'') educator_id),
                delete_row educator db)
           | failed \<Rightarrow>
               (Inl (HTTPException 500 (Msg ''Failed to delete educator'')), db)))"

section \<open>routers/users.py\<close>

record UserUpdate =
  uu_email :: "string option"
  uu_first_name :: "string option"
  uu_last_name :: "string option"
  uu_role :: "string option"
  uu_desired_name :: "string option"
  uu_phone :: "string option"
  uu_profile_image :: "string option"
  uu_timezone :: "string option"

text \<open>
  \<open>update_user\<close> has no dependency on the current user. \<open>base64.b64decode\<close> is the
  parameter \<open>b64decode\<close>, which gives the bytes or the text of its error. The response
  of a committed update is the row; how it is serialised afterwards is not modelled.
\<close>

definition update_user ::
  "commit \<Rightarrow> (string \<Rightarrow> string + string) \<Rightarrow> store \<Rightarrow> int \<Rightarrow> UserUpdate
     \<Rightarrow> (error + response) \<times> store" where
  "update_user c b64decode db user_id user =
     (case query_first (\<lambda>u. uid u = user_id) db of
        None \<Rightarrow> (Inl (HTTPException 404 (Msg ''User not found'')), db)
      | Some db_user \<Rightarrow>
          let db_user = (if nonempty (uu_email user)
                         then db_user\<lparr>email := or_empty (uu_email user)\<rparr> else db_user);
              db_user = (if nonempty (uu_first_name user)
                         then db_user\<lparr>first_name := uu_first_name user\<rparr> else db_user);
              db_user = (if nonempty (uu_last_name user)
                         then db_user\<lparr>last_name := uu_last_name user\<rparr> else db_user);
              db_user = (if nonempty (uu_role user)
                         then db_user\<lparr>role := or_empty (uu_role user)\<rparr> else db_user);
              db_user = (if uu_desired_name user \<noteq> None
                         then db_user\<lparr>desired_name := uu_desired_name user\<rparr> else db_user);
              db_user = (if uu_phone user \<noteq> None
                         then db_user\<lparr>phone := uu_phone user\<rparr> else db_user);
              db_user = (if uu_timezone user \<noteq> None
                         then db_user\<lparr>timezone := uu_timezone user\<rparr> else db_user);
              image = (case uu_profile_image user of
                         None \<Rightarrow> Inr db_user
                       | Some b64 \<Rightarrow>
                           if b64 = [] then Inr (db_user\<lparr>profile_image := None\<rparr>)
                           else (case b64decode b64 of
                                   Inl e \<Rightarrow> Inl (''Invalid base64 image data: '' @ e)
                                 | Inr image_bytes \<Rightarrow>
                                     Inr (db_user\<lparr>profile_image := Some image_bytes\<rparr>)))
          in
          (case image of
             Inl e \<Rightarrow> (Inl (HTTPException 400 (Msg e)), db)
           | Inr db_user \<Rightarrow>
               (case c of
                  Committed \<Rightarrow> (Inr (Updated db_user), update_row db_user db)
                | IntegrityError \<Rightarrow>
                    (Inl (HTTPException 409 (Msg ''User with this email already exists'')), db)
                | SQLAlchemyError \<Rightarrow>
                    (Inl (HTTPException 500 (Msg ''Database error occurred'')), db))))"

section \<open>The account invariant and the requests that write the table\<close>

text \<open>An account with the role \<open>pending\<close> is not approved.\<close>

definition account_invariant :: "user \<Rightarrow> bool" where
  "account_invariant u = (role u = role_value PENDING \<longrightarrow> is_approved u = False)"

definition store_invariant :: "store \<Rightarrow> bool" where
  "store_invariant db = list_all account_invariant db"

text \<open>
  The requests of \<open>routers/auth.py\<close> that write the table, each with the inputs of its
  handler; \<open>auth_step\<close> is the table after the request. The other handlers of the
  router (\<open>login\<close>, \<open>refresh_token\<close>, \<open>check_email\<close>, \<open>get_me\<close>, \<open>logout\<close> and
  the three listings) only read it.
\<close>

datatype auth_request =
    Register commit nat RegisterRequest
  | ForgotPassword commit bool string "int option" string
  | ResetPassword commit nat string string
  | ApproveUser commit ApproveUserRequest claims
  | RejectUser commit int string claims
  | CreateEducator commit commit nat CreateEducatorRequest claims
  | UpdateEducator commit int UpdateEducatorRequest
  | DeleteEducator commit int

fun auth_step :: "time \<Rightarrow> auth_request \<Rightarrow> store \<Rightarrow> store" where
  "auth_step now (Register c salt user_data) db = snd (register c salt db user_data)"
| "auth_step now (ForgotPassword c mail_raises reset_token expiry_hours e) db =
     snd (forgot_password c mail_raises reset_token expiry_hours now db e)"
| "auth_step now (ResetPassword c salt tok new_password) db =
     snd (reset_password c salt now db tok new_password)"
| "auth_step now (ApproveUser c request current_user) db =
     snd (approve_user c now db request current_user)"
| "auth_step now (RejectUser c i reason current_user) db =
     snd (reject_user c now db i reason current_user)"
| "auth_step now (CreateEducator c c2 salt request current_user) db =
     snd (create_educator c c2 salt now db request current_user)"
| "auth_step now (UpdateEducator c i request) db = snd (update_educator c db i request)"
| "auth_step now (DeleteEducator c i) db = snd (delete_educator c db i)"

section \<open>Sample data\<close>

text \<open>
  An approved teacher, the same account holding a reset ticket that expires at 4600, an
  account that was rejected at 50, and an administrator's token payload.
\<close>

definition teacher_account :: user where
  "teacher_account =
     User 1 7 ''a@x.com'' ''auser'' ''Sup3r$ecretPass!'' (Some ''Ann'') (Some ''Lee'')
       ''teacher'' True"

definition teacher_with_ticket :: user where
  "teacher_with_ticket =
     teacher_account
       \<lparr>password_reset_token := Some ''ticket'',
        password_reset_expires := Some 4600,
        password_reset_requested_at := Some 1000\<rparr>"

definition rejected_account :: user where
  "rejected_account =
     (User 2 8 ''b@x.com'' ''buser'' ''An0ther$ecretPass'' (Some ''Bo'') (Some ''Ray'')
        ''pending'' False)
       \<lparr>is_rejected := True, rejected_at := Some 50, rejected_by_id := JInt 9,
        rejection_reason := Some ''duplicate'', is_active := False\<rparr>"

definition admin_payload :: TokenPayload where
  "admin_payload =
     \<lparr>tp_user_id = 9, tp_email = ''admin@x.com'', tp_role = ADMIN,
      tp_first_name = Some ''Ada'', tp_last_name = None, tp_desired_name = None\<rparr>"

definition approve_as_teacher :: "int \<Rightarrow> ApproveUserRequest" where
  "approve_as_teacher i =
     \<lparr>ap_user_id = i, ap_approval_notes = Some ''ok'', ap_role = ''teacher''\<rparr>"

definition only_role :: "string \<Rightarrow> UserUpdate" where
  "only_role r =
     \<lparr>uu_email = None, uu_first_name = None, uu_last_name = None, uu_role = Some r,
      uu_desired_name = None, uu_phone = None, uu_profile_image = None,
      uu_timezone = None\<rparr>"

definition reject_all_images :: "string \<Rightarrow> string + string" where
  "reject_all_images b64 = Inl ''Incorrect padding''"

section \<open>Facts about tokens and the access guard\<close>

lemmas token_defs =
  create_access_token_def create_refresh_token_def jwt_encode_def verify_token_def
  jwt_decode_def validate_iat_def get_def model_dump_def
  ACCESS_TOKEN_EXPIRE_MINUTES_def REFRESH_TOKEN_EXPIRE_DAYS_def

lemma get_current_user_Inr:
  "get_current_user key now tok = Inr cu \<Longrightarrow>
     verify_token key now tok = Inr cu \<and> get cu ''type'' = JStr ''access''"
  by (auto simp: get_current_user_def split: sum.splits jwt_error.splits if_splits)

lemma get_current_user_401:
  "get_current_user key now tok = Inl e \<Longrightarrow> \<exists>d. e = HTTPException 401 (Msg d)"
  by (auto simp: get_current_user_def split: sum.splits jwt_error.splits if_splits)

lemma verify_token_Inr:
  "verify_token key now tok = Inr payload \<Longrightarrow> tok = Signed key payload"
  by (auto simp: verify_token_def jwt_decode_def split: token.splits if_splits option.splits jval.splits)

text \<open>
  C7. The access guard: a token whose \<open>type\<close> claim is not \<open>access\<close>, a refresh
  token for one, is rejected with 401, with the detail \<open>Invalid token type\<close> when
  the token verifies. Given the claims of a verified access token, \<open>require_role\<close>
  admits the request when the role is \<open>superuser\<close>, whatever the allowed roles are,
  admits it when the role is one of the allowed roles, and otherwise fails with 403.
\<close>

theorem access_guard_decision:
  "(\<forall>k payload. tok = Signed k payload \<and> get payload ''type'' \<noteq> JStr ''access''
       \<longrightarrow> (\<exists>d. get_current_user key now tok = Inl (HTTPException 401 (Msg d))))
   \<and> (verify_token key now tok = Inr cu \<and> get cu ''type'' \<noteq> JStr ''access''
       \<longrightarrow> get_current_user key now tok = Inl (HTTPException 401 (Msg ''Invalid token type'')))
   \<and> (get_current_user key now tok = Inr cu \<and> get cu ''role'' = JStr ''superuser''
       \<longrightarrow> require_role allowed key now tok = Inr cu)
   \<and> (get_current_user key now tok = Inr cu \<and> (\<exists>r \<in> set allowed. get cu ''role'' = JStr (role_value r))
       \<longrightarrow> require_role allowed key now tok = Inr cu)
   \<and> (get_current_user key now tok = Inr cu \<and> get cu ''role'' \<noteq> JStr ''superuser''
        \<and> (\<forall>r \<in> set allowed. get cu ''role'' \<noteq> JStr (role_value r))
       \<longrightarrow> require_role allowed key now tok =
             Inl (HTTPException 403 (Msg (''Insufficient permissions. Required role: ''
                     @ join '', '' (map role_value allowed)))))"
proof (intro conjI allI impI)
  fix k payload
  assume a: "tok = Signed k payload \<and> get payload ''type'' \<noteq> JStr ''access''"
  show "\<exists>d. get_current_user key now tok = Inl (HTTPException 401 (Msg d))"
  proof (cases "get_current_user key now tok")
    case (Inl e)
    then show ?thesis using get_current_user_401 by blast
  next
    case (Inr c)
    from get_current_user_Inr [OF Inr] verify_token_Inr [of key now tok c] a
    show ?thesis by simp
  qed
next
  assume "verify_token key now tok = Inr cu \<and> get cu ''type'' \<noteq> JStr ''access''"
  then show "get_current_user key now tok = Inl (HTTPException 401 (Msg ''Invalid token type''))"
    by (simp add: get_current_user_def)
next
  assume "get_current_user key now tok = Inr cu \<and> get cu ''role'' = JStr ''superuser''"
  then show "require_role allowed key now tok = Inr cu"
    by (simp add: require_role_def role_checker_def)
next
  assume "get_current_user key now tok = Inr cu \<and> (\<exists>r \<in> set allowed. get cu ''role'' = JStr (role_value r))"
  then show "require_role allowed key now tok = Inr cu"
    by (auto simp: require_role_def role_checker_def Let_def)
next
  assume "get_current_user key now tok = Inr cu \<and> get cu ''role'' \<noteq> JStr ''superuser''
        \<and> (\<forall>r \<in> set allowed. get cu ''role'' \<noteq> JStr (role_value r))"
  then show "require_role allowed key now tok =
             Inl (HTTPException 403 (Msg (''Insufficient permissions. Required role: ''
                     @ join '', '' (map role_value allowed))))"
    by (auto simp: require_role_def role_checker_def Let_def)
qed

text \<open>
  The theorem at a refresh token, at the access tokens of a superuser and of an
  administrator, and at the access token of a teacher on an administrator endpoint.
\<close>

theorem access_guard_decision_witness:
  "get_current_user ''k'' 100 (create_refresh_token ''k'' 0 admin_payload)
     = Inl (HTTPException 401 (Msg ''Invalid token type''))
   \<and> require_role [TEACHER] ''k'' 100
        (create_access_token ''k'' 0 (admin_payload\<lparr>tp_role := SUPERUSER\<rparr>))
     = Inr (payload_of (create_access_token ''k'' 0 (admin_payload\<lparr>tp_role := SUPERUSER\<rparr>)))
   \<and> require_role admin_roles ''k'' 100 (create_access_token ''k'' 0 admin_payload)
     = Inr (payload_of (create_access_token ''k'' 0 admin_payload))
   \<and> require_role admin_roles ''k'' 100
        (create_access_token ''k'' 0 (admin_payload\<lparr>tp_role := TEACHER\<rparr>))
     = Inl (HTTPException 403
              (Msg ''Insufficient permissions. Required role: admin, super_admin''))"
proof -
  let ?rt = "create_refresh_token ''k'' 0 admin_payload"
  let ?su = "create_access_token ''k'' 0 (admin_payload\<lparr>tp_role := SUPERUSER\<rparr>)"
  let ?ad = "create_access_token ''k'' 0 admin_payload"
  let ?te = "create_access_token ''k'' 0 (admin_payload\<lparr>tp_role := TEACHER\<rparr>)"
  have h1: "verify_token ''k'' 100 ?rt = Inr (payload_of ?rt)
            \<and> get (payload_of ?rt) ''type'' \<noteq> JStr ''access''"
    by (simp add: token_defs admin_payload_def)
  have h2: "get_current_user ''k'' 100 ?su = Inr (payload_of ?su)
            \<and> get (payload_of ?su) ''role'' = JStr ''superuser''"
    by (simp add: get_current_user_def token_defs admin_payload_def)
  have h3: "get_current_user ''k'' 100 ?ad = Inr (payload_of ?ad)
            \<and> (\<exists>r \<in> set admin_roles. get (payload_of ?ad) ''role'' = JStr (role_value r))"
    by (simp add: get_current_user_def token_defs admin_payload_def admin_roles_def)
  have h4: "get_current_user ''k'' 100 ?te = Inr (payload_of ?te)
            \<and> get (payload_of ?te) ''role'' \<noteq> JStr ''superuser''
            \<and> (\<forall>r \<in> set admin_roles. get (payload_of ?te) ''role'' \<noteq> JStr (role_value r))"
    by (simp add: get_current_user_def token_defs admin_payload_def admin_roles_def)
  have c1: "get_current_user ''k'' 100 ?rt = Inl (HTTPException 401 (Msg ''Invalid token type''))"
    using access_guard_decision [where tok = ?rt and key = "''k''" and now = 100
        and cu = "payload_of ?rt"] h1 by blast
  have c2: "require_role [TEACHER] ''k'' 100 ?su = Inr (payload_of ?su)"
    using access_guard_decision [where tok = ?su and key = "''k''" and now = 100
        and cu = "payload_of ?su" and allowed = "[TEACHER]"] h2 by blast
  have c3: "require_role admin_roles ''k'' 100 ?ad = Inr (payload_of ?ad)"
    using access_guard_decision [where tok = ?ad and key = "''k''" and now = 100
        and cu = "payload_of ?ad" and allowed = admin_roles] h3 by blast
  have c4: "require_role admin_roles ''k'' 100 ?te =
             Inl (HTTPException 403 (Msg (''Insufficient permissions. Required role: ''
                     @ join '', '' (map role_value admin_roles))))"
    using access_guard_decision [where tok = ?te and key = "''k''" and now = 100
        and cu = "payload_of ?te" and allowed = admin_roles] h4 by blast
  from c1 c2 c3 c4 show ?thesis by (simp add: admin_roles_def)
qed

section \<open>Facts about the password policy\<close>

lemma str_nat_12: "str_nat 12 = ''12''"
  by simp

lemma str_nat_MIN_LENGTH: "str_nat MIN_LENGTH = ''12''"
  by (simp add: MIN_LENGTH_def)

lemma is_upper_AZ_iff: "is_upper_AZ c \<longleftrightarrow> c \<in> set ''ABCDEFGHIJKLMNOPQRSTUVWXYZ''"
  unfolding is_upper_AZ_def by (cases c) auto

lemma is_lower_az_iff: "is_lower_az c \<longleftrightarrow> c \<in> set ''abcdefghijklmnopqrstuvwxyz''"
  unfolding is_lower_az_def by (cases c) auto

lemma is_digit_iff: "is_digit c \<longleftrightarrow> c \<in> set ''0123456789''"
  unfolding is_digit_def by (cases c) auto

lemma starts_with_iff: "starts_with s sub \<longleftrightarrow> (\<exists>post. s = sub @ post)"
  by (induction s sub rule: starts_with.induct) auto

lemma str_in_iff: "str_in sub s \<longleftrightarrow> (\<exists>pre post. s = pre @ sub @ post)"
proof (induction s)
  case Nil
  then show ?case by simp
next
  case (Cons d s)
  show ?case
  proof
    assume "str_in sub (d # s)"
    then consider "starts_with (d # s) sub" | "str_in sub s" by auto
    then show "\<exists>pre post. d # s = pre @ sub @ post"
    proof cases
      case 1
      then obtain post where "d # s = sub @ post" using starts_with_iff by blast
      then have "d # s = [] @ sub @ post" by simp
      then show ?thesis by blast
    next
      case 2
      then obtain pre post where "s = pre @ sub @ post" using Cons.IH by blast
      then have "d # s = (d # pre) @ sub @ post" by simp
      then show ?thesis by blast
    qed
  next
    assume "\<exists>pre post. d # s = pre @ sub @ post"
    then obtain pre post where e: "d # s = pre @ sub @ post" by blast
    show "str_in sub (d # s)"
    proof (cases pre)
      case Nil
      with e have "starts_with (d # s) sub" using starts_with_iff by auto
      then show ?thesis by simp
    next
      case (Cons x pre')
      with e have "s = pre' @ sub @ post" by simp
      then have "str_in sub s" using Cons.IH by blast
      then show ?thesis by simp
    qed
  qed
qed

lemma re_search_iff: "re_search cls password \<longleftrightarrow> (\<exists>c \<in> set password. cls c)"
  by (simp add: re_search_def list_ex_iff)

lemma validate_errors:
  "snd (validate password) =
       (if length password < 12
        then [''Password must be at least 12 characters long''] else [])
     @ (if \<exists>c \<in> set password. c \<in> set ''ABCDEFGHIJKLMNOPQRSTUVWXYZ''
        then [] else [''Password must contain at least one uppercase letter''])
     @ (if \<exists>c \<in> set password. c \<in> set ''abcdefghijklmnopqrstuvwxyz''
        then [] else [''Password must contain at least one lowercase letter''])
     @ (if \<exists>c \<in> set password. c \<in> set ''0123456789''
        then [] else [''Password must contain at least one digit''])
     @ (if \<exists>c \<in> set password. c \<in> set ''!@#$%^&*()_+-=[]{}|;:,.<>?''
        then []
        else [''Password must contain at least one special character (!@#$%^&*()_+-=[]{}|;:,.<>?)''])"
  unfolding validate_def Let_def REQUIRE_UPPERCASE_def REQUIRE_LOWERCASE_def
    REQUIRE_DIGIT_def REQUIRE_SPECIAL_def re_search_iff list_ex_iff
    is_upper_AZ_iff is_lower_az_iff is_digit_iff SPECIAL_CHARS_def
  by (simp add: str_nat_12 MIN_LENGTH_def del: str_nat.simps set_simps)

lemma validate_fst: "fst (validate password) \<longleftrightarrow> snd (validate password) = []"
  by (simp add: validate_def Let_def)


lemma validate_password_errors:
  "errors (validate_password password uname) =
     snd (validate password)
     @ (if uname \<noteq> [] \<and> (\<exists>pre post. lower password = pre @ lower uname @ post)
        then [''Password should not contain your username or email''] else [])"
  by (simp add: validate_password_def Let_def split_beta str_in_iff)

lemma validate_password_is_valid:
  "is_valid (validate_password password uname)
     \<longleftrightarrow> errors (validate_password password uname) = []"
  by (simp add: validate_password_def Let_def split_beta validate_fst)


text \<open>
  C6. \<open>validate_password\<close> checks every rule on its own and reports every rule
  that is broken, in the order of the rules: at least 12 characters, an uppercase letter,
  a lowercase letter, a digit, a character of the special set and, when a username is
  given, no occurrence of the username in the password, both in lower case. The result
  is valid exactly when the list of errors is empty, and a password shorter than 12
  characters always has the length error in the list.
\<close>

theorem validate_password_reports_every_violation:
  "errors (validate_password password uname) =
       (if length password < 12
        then [''Password must be at least 12 characters long''] else [])
     @ (if \<exists>c \<in> set password. c \<in> set ''ABCDEFGHIJKLMNOPQRSTUVWXYZ''
        then [] else [''Password must contain at least one uppercase letter''])
     @ (if \<exists>c \<in> set password. c \<in> set ''abcdefghijklmnopqrstuvwxyz''
        then [] else [''Password must contain at least one lowercase letter''])
     @ (if \<exists>c \<in> set password. c \<in> set ''0123456789''
        then [] else [''Password must contain at least one digit''])
     @ (if \<exists>c \<in> set password. c \<in> set ''!@#$%^&*()_+-=[]{}|;:,.<>?''
        then []
        else [''Password must contain at least one special character (!@#$%^&*()_+-=[]{}|;:,.<>?)''])
     @ (if uname \<noteq> [] \<and> (\<exists>pre post. lower password = pre @ lower uname @ post)
        then [''Password should not contain your username or email''] else [])
   \<and> (is_valid (validate_password password uname)
        \<longleftrightarrow> errors (validate_password password uname) = [])
   \<and> (length password < 12 \<longrightarrow>
        ''Password must be at least 12 characters long''
          \<in> set (errors (validate_password password uname)))"
proof (intro conjI)
  show e: "errors (validate_password password uname) =
       (if length password < 12
        then [''Password must be at least 12 characters long''] else [])
     @ (if \<exists>c \<in> set password. c \<in> set ''ABCDEFGHIJKLMNOPQRSTUVWXYZ''
        then [] else [''Password must contain at least one uppercase letter''])
     @ (if \<exists>c \<in> set password. c \<in> set ''abcdefghijklmnopqrstuvwxyz''
        then [] else [''Password must contain at least one lowercase letter''])
     @ (if \<exists>c \<in> set password. c \<in> set ''0123456789''
        then [] else [''Password must contain at least one digit''])
     @ (if \<exists>c \<in> set password. c \<in> set ''!@#$%^&*()_+-=[]{}|;:,.<>?''
        then []
        else [''Password must contain at least one special character (!@#$%^&*()_+-=[]{}|;:,.<>?)''])
     @ (if uname \<noteq> [] \<and> (\<exists>pre post. lower password = pre @ lower uname @ post)
        then [''Password should not contain your username or email''] else [])"
    unfolding validate_password_errors validate_errors by (simp only: append_assoc)
  show "is_valid (validate_password password uname)
        \<longleftrightarrow> errors (validate_password password uname) = []"
    by (rule validate_password_is_valid)
  show "length password < 12 \<longrightarrow>
        ''Password must be at least 12 characters long''
          \<in> set (errors (validate_password password uname))"
  proof
    assume "length password < 12"
    then show "''Password must be at least 12 characters long''
          \<in> set (errors (validate_password password uname))"
      unfolding e by (simp only: if_True append.simps list.set insert_iff simp_thms)
  qed
qed

text \<open>
  The theorem at a password of seven characters that contains the username.
\<close>

theorem validate_password_reports_every_violation_witness:
  "length ''Short1!'' < 12
   \<and> ''Password must be at least 12 characters long''
        \<in> set (errors (validate_password ''Short1!'' ''sho''))
   \<and> errors (validate_password ''Short1!'' ''sho'') =
        [''Password must be at least 12 characters long'',
         ''Password should not contain your username or email'']
   \<and> \<not> is_valid (validate_password ''Short1!'' ''sho'')"
proof -
  have "str_in (lower ''sho'') (lower ''Short1!'')" by code_simp
  then have sub: "\<exists>pre post. lower ''Short1!'' = pre @ lower ''sho'' @ post"
    by (simp only: str_in_iff)
  show ?thesis
    using validate_password_reports_every_violation [of "''Short1!''" "''sho''"] sub
    by simp
qed

section \<open>Facts about refresh, the current user and login\<close>

lemma refresh_token_needs_sub:
  "get (payload_of tok) ''sub'' = JNull \<Longrightarrow>
     refresh_token key now db tok
       = Inl (HTTPException 401 (Msg ''Invalid or expired refresh token''))"
  by (auto simp: refresh_token_def Let_def dest!: verify_token_Inr split: sum.splits)

lemma create_refresh_token_no_sub:
  "get (payload_of (create_refresh_token key now p)) ''sub'' = JNull"
  by (simp add: create_refresh_token_def jwt_encode_def get_def)

lemma refresh_token_of_issued:
  "refresh_token key now db (create_refresh_token key' now' p)
     = Inl (HTTPException 401 (Msg ''Invalid or expired refresh token''))"
  by (rule refresh_token_needs_sub [OF create_refresh_token_no_sub])

text \<open>
  C1. A refresh token made by \<open>create_refresh_token\<close> for the approved teacher, presented
  100 seconds after it was issued: the token verifies, the account is in the table and is
  approved, and \<open>refresh_token\<close> answers 401. The handler reads the claim \<open>sub\<close>,
  which \<open>create_refresh_token\<close> never writes.
\<close>

theorem refresh_rejects_issued_refresh_token:
  "verify_token ''k'' 100 (create_refresh_token ''k'' 0 (token_payload teacher_account TEACHER))
     = Inr (payload_of (create_refresh_token ''k'' 0 (token_payload teacher_account TEACHER)))
   \<and> get (payload_of (create_refresh_token ''k'' 0 (token_payload teacher_account TEACHER)))
         ''user_id'' = JInt (uid teacher_account)
   \<and> teacher_account \<in> set [teacher_account]
   \<and> is_approved teacher_account
   \<and> Role_of (role teacher_account) = Some TEACHER
   \<and> refresh_token ''k'' 100 [teacher_account]
         (create_refresh_token ''k'' 0 (token_payload teacher_account TEACHER))
       = Inl (HTTPException 401 (Msg ''Invalid or expired refresh token''))"
proof (intro conjI)
  show "refresh_token ''k'' 100 [teacher_account]
         (create_refresh_token ''k'' 0 (token_payload teacher_account TEACHER))
       = Inl (HTTPException 401 (Msg ''Invalid or expired refresh token''))"
    by (rule refresh_token_of_issued)
qed (simp_all add: token_defs teacher_account_def User_def token_payload_def Role_of_def)

text \<open>
  C3. The approved teacher logs in. With the email and the password
  \<open>authenticate_user\<close> finds the account; with the username of the same account and the
  same password \<open>login\<close> answers 401, because \<open>authenticate_user\<close> looks the
  identifier up in the email column only.
\<close>

theorem login_by_username_is_rejected:
  "authenticate_user [teacher_account] ''a@x.com'' ''Sup3r$ecretPass!'' = Some teacher_account
   \<and> get_user_by_username [teacher_account] ''auser'' = Some teacher_account
   \<and> verify_password ''Sup3r$ecretPass!'' (hashed_password teacher_account)
   \<and> login key now b64encode [teacher_account] None (Some ''auser'') ''Sup3r$ecretPass!''
       = Inl (HTTPException 401 (Msg ''Invalid email/username or password''))"
  by (simp add: login_def py_or_def nonempty_def authenticate_user_def get_user_by_email_def
        get_user_by_username_def query_first_def verify_password_def hash_password_def
        teacher_account_def User_def)

section \<open>Facts about approval\<close>

lemma query_first_Some: "query_first P db = Some u \<Longrightarrow> P u \<and> u \<in> set db"
  by (auto simp: query_first_def find_Some_iff)

lemma query_first_update_row:
  "query_first (\<lambda>u. uid u = i) db = Some old \<Longrightarrow> uid new = uid old \<Longrightarrow>
     query_first (\<lambda>u. uid u = i) (update_row new db) = Some new"
proof (induction db)
  case Nil
  then show ?case by (simp add: query_first_def)
next
  case (Cons r rs)
  show ?case
  proof (cases "uid r = i")
    case True
    with Cons.prems have "old = r" by (simp add: query_first_def)
    with True Cons.prems show ?thesis by (simp add: query_first_def update_row_def)
  next
    case False
    with Cons.prems have f: "query_first (\<lambda>u. uid u = i) rs = Some old"
      by (simp add: query_first_def)
    then have "uid old = i" using query_first_Some by fastforce
    with False Cons.prems have "uid r \<noteq> uid new" by simp
    with False Cons.IH [OF f Cons.prems(2)] show ?thesis
      by (simp add: query_first_def update_row_def)
  qed
qed

lemma Role_of_Some: "Role_of s = Some r \<Longrightarrow> role_value r = s"
  by (auto simp: Role_of_def split: if_splits)

lemma requested_role_of_Some:
  "requested_role_of s = Some r \<longleftrightarrow> Role_of s = Some r \<and> r \<noteq> PENDING"
  by (auto simp: requested_role_of_def split: option.splits)

lemma requested_role_of_None:
  "requested_role_of s = None \<longleftrightarrow> Role_of s = None \<or> Role_of s = Some PENDING"
  by (auto simp: requested_role_of_def split: option.splits)

lemma approve_user_committed:
  assumes "query_first (\<lambda>u. uid u = ap_user_id request) db = Some old"
    and "Role_of (ap_role request) = Some r" and "r \<noteq> PENDING"
  shows "approve_user Committed now db request current_user =
     (Inr (ApproveUserResponse
             (''User '' @ email old @ '' has been approved as '' @ ap_role request)
             (uid old) (ap_role request) True),
      update_row
        (old\<lparr>is_approved := True, approved_at := Some now, registered_date := Some now,
             approved_by_id := get current_user ''sub'', role := ap_role request,
             is_rejected := False, rejection_reason := None,
             approval_notes := ap_approval_notes request\<rparr>) db)"
proof -
  from assms have "requested_role_of (ap_role request) = Some r"
    by (simp add: requested_role_of_Some)
  with assms(1) Role_of_Some [OF assms(2)] show ?thesis
    by (simp add: approve_user_def Let_def)
qed

lemma approve_user_Inr:
  assumes "approve_user c now db request current_user = (Inr resp, db')"
  shows "\<exists>old r. query_first (\<lambda>u. uid u = ap_user_id request) db = Some old
           \<and> Role_of (ap_role request) = Some r \<and> r \<noteq> PENDING \<and> c = Committed"
  using assms
  by (auto simp: approve_user_def Let_def requested_role_of_Some [symmetric]
           split: option.splits commit.splits)

lemma access_token_current_user:
  "now \<le> t \<Longrightarrow> t < now + 1800 \<Longrightarrow>
     get_current_user key t (create_access_token key now p)
       = Inr (payload_of (create_access_token key now p))"
  by (simp add: get_current_user_def token_defs)

lemma access_token_no_sub: "get (payload_of (create_access_token key now p)) ''sub'' = JNull"
  by (simp add: token_defs)


text \<open>
  C2. An access token made by \<open>create_access_token\<close>, while it is valid: the decoded
  payload has the subject under \<open>user_id\<close> and has no claim \<open>sub\<close>. So
  \<^verbatim>\<open>GET /auth/me\<close> answers 401 with such a token, and when the approve-user endpoint
  succeeds with it, the approved row records a null \<open>approved_by_id\<close>.
\<close>

theorem access_token_subject_is_user_id_only:
  assumes "now \<le> t" and "t < now + 1800"
  shows "verify_token key t (create_access_token key now p)
           = Inr (payload_of (create_access_token key now p))
    \<and> payload_of (create_access_token key now p) ''user_id'' = Some (JInt (tp_user_id p))
    \<and> dom (payload_of (create_access_token key now p)) =
          {''user_id'', ''email'', ''role'', ''first_name'', ''last_name'', ''desired_name'',
           ''type'', ''exp'', ''iat''}
    \<and> ''sub'' \<notin> dom (payload_of (create_access_token key now p))
    \<and> get_me_endpoint key t b64encode db (create_access_token key now p)
          = Inl (HTTPException 401 (Msg ''Invalid token''))
    \<and> (\<forall>resp db'.
          approve_user_endpoint key c t db (create_access_token key now p) request
            = (Inr resp, db')
          \<longrightarrow> (\<exists>u. query_first (\<lambda>u. uid u = ap_user_id request) db' = Some u
                   \<and> is_approved u \<and> approved_by_id u = JNull))"
proof (intro conjI allI impI)
  let ?tok = "create_access_token key now p"
  let ?cu = "payload_of ?tok"
  note cu = access_token_current_user [OF assms, of key p]
  show "verify_token key t ?tok = Inr ?cu"
    using get_current_user_Inr [OF cu] by simp
  show "?cu ''user_id'' = Some (JInt (tp_user_id p))"
    by (simp add: token_defs)
  show "dom ?cu = {''user_id'', ''email'', ''role'', ''first_name'', ''last_name'',
           ''desired_name'', ''type'', ''exp'', ''iat''}"
    by (auto simp: token_defs)
  show "''sub'' \<notin> dom ?cu"
    by (simp add: token_defs)
  show "get_me_endpoint key t b64encode db ?tok = Inl (HTTPException 401 (Msg ''Invalid token''))"
    by (simp add: get_me_endpoint_def cu get_me_def access_token_no_sub)
  fix resp db'
  assume a: "approve_user_endpoint key c t db ?tok request = (Inr resp, db')"
  then obtain current_user where
    rr: "require_role admin_roles key t ?tok = Inr current_user"
    and ap: "approve_user c t db request current_user = (Inr resp, db')"
    by (auto simp: approve_user_endpoint_def split: sum.splits)
  from rr cu have "current_user = ?cu"
    by (auto simp: require_role_def role_checker_def Let_def split: if_splits)
  then have sub: "get current_user ''sub'' = JNull"
    by (simp add: access_token_no_sub)
  from approve_user_Inr [OF ap] obtain old r where
    old: "query_first (\<lambda>u. uid u = ap_user_id request) db = Some old"
    and r: "Role_of (ap_role request) = Some r" "r \<noteq> PENDING" and c: "c = Committed"
    by blast
  let ?new = "old\<lparr>is_approved := True, approved_at := Some t, registered_date := Some t,
             approved_by_id := get current_user ''sub'', role := ap_role request,
             is_rejected := False, rejection_reason := None,
             approval_notes := ap_approval_notes request\<rparr>"
  from ap c approve_user_committed [OF old r, of t current_user]
  have "db' = update_row ?new db" by simp
  moreover have "query_first (\<lambda>u. uid u = ap_user_id request) (update_row ?new db) = Some ?new"
    by (rule query_first_update_row [OF old]) simp
  ultimately show "\<exists>u. query_first (\<lambda>u. uid u = ap_user_id request) db' = Some u
                   \<and> is_approved u \<and> approved_by_id u = JNull"
    using sub by simp
qed

text \<open>
  The theorem at the administrator's token, 100 seconds after it was issued, with the
  rejected account as the one to approve.
\<close>

theorem access_token_subject_is_user_id_only_witness:
  "(0::int) \<le> 100 \<and> (100::int) < 0 + 1800
   \<and> get_me_endpoint ''k'' 100 id [rejected_account] (create_access_token ''k'' 0 admin_payload)
        = Inl (HTTPException 401 (Msg ''Invalid token''))
   \<and> fst (approve_user_endpoint ''k'' Committed 100 [rejected_account]
             (create_access_token ''k'' 0 admin_payload) (approve_as_teacher 2))
        = Inr (ApproveUserResponse ''User b@x.com has been approved as teacher'' 2 ''teacher'' True)
   \<and> map approved_by_id
        (snd (approve_user_endpoint ''k'' Committed 100 [rejected_account]
                (create_access_token ''k'' 0 admin_payload) (approve_as_teacher 2)))
        = [JNull]"
proof -
  have w: "(0::int) \<le> 100" "(100::int) < 0 + 1800" by simp_all
  have ev: "approve_user_endpoint ''k'' Committed 100 [rejected_account]
             (create_access_token ''k'' 0 admin_payload) (approve_as_teacher 2)
        = (Inr (ApproveUserResponse ''User b@x.com has been approved as teacher'' 2 ''teacher'' True),
           [rejected_account\<lparr>is_approved := True, approved_at := Some 100,
              registered_date := Some 100, approved_by_id := JNull, role := ''teacher'',
              is_rejected := False, rejection_reason := None,
              approval_notes := Some ''ok''\<rparr>])"
    by (simp add: approve_user_endpoint_def require_role_def role_checker_def
          get_current_user_def token_defs admin_payload_def admin_roles_def
          approve_user_def requested_role_of_def Role_of_def query_first_def
          update_row_def rejected_account_def User_def approve_as_teacher_def Let_def)
  from access_token_subject_is_user_id_only [OF w, of "''k''" admin_payload id
      "[rejected_account]" Committed "approve_as_teacher 2"] ev
  show ?thesis by simp
qed


text \<open>
  C5, as the code has it. For a caller that \<open>require_role\<close> admits as administrator:
  an unknown account id is answered with 404; a known account with a target role that
  is \<open>pending\<close> or no role at all is answered with 400; a known account with any other
  role, when the commit succeeds, becomes approved with \<open>approved_at\<close> and
  \<open>registered_date\<close> at the time of the request, the target role, the notes of the
  request, \<open>is_rejected\<close> false and no \<open>rejection_reason\<close>. Every other column
  keeps its value, \<open>rejected_at\<close> and \<open>rejected_by_id\<close> among them; what is
  recorded in \<open>approved_by_id\<close> is left open here.
\<close>

theorem approve_user_effect:
  assumes "require_role admin_roles key now tok = Inr current_user"
  shows "(query_first (\<lambda>u. uid u = ap_user_id request) db = None \<longrightarrow>
            approve_user_endpoint key c now db tok request
              = (Inl (HTTPException 404
                   (Msg (''User with ID '' @ str_int (ap_user_id request) @ '' not found''))), db))
    \<and> (\<forall>old. query_first (\<lambda>u. uid u = ap_user_id request) db = Some old
              \<and> (Role_of (ap_role request) = None \<or> Role_of (ap_role request) = Some PENDING)
          \<longrightarrow> approve_user_endpoint key c now db tok request
                = (Inl (HTTPException 400 (Msg (''Invalid role: '' @ ap_role request))), db))
    \<and> (\<forall>old r. query_first (\<lambda>u. uid u = ap_user_id request) db = Some old
              \<and> Role_of (ap_role request) = Some r \<and> r \<noteq> PENDING
          \<longrightarrow> (\<exists>resp new by_id.
                  approve_user_endpoint key Committed now db tok request
                    = (Inr resp, update_row new db)
                  \<and> query_first (\<lambda>u. uid u = ap_user_id request) (update_row new db) = Some new
                  \<and> new = old\<lparr>is_approved := True, approved_at := Some now,
                                registered_date := Some now, approved_by_id := by_id,
                                role := ap_role request, is_rejected := False,
                                rejection_reason := None,
                                approval_notes := ap_approval_notes request\<rparr>
                  \<and> rejected_at new = rejected_at old
                  \<and> rejected_by_id new = rejected_by_id old))"
proof (intro conjI allI impI)
  assume "query_first (\<lambda>u. uid u = ap_user_id request) db = None"
  with assms show "approve_user_endpoint key c now db tok request
              = (Inl (HTTPException 404
                   (Msg (''User with ID '' @ str_int (ap_user_id request) @ '' not found''))), db)"
    by (simp add: approve_user_endpoint_def approve_user_def)
next
  fix old
  assume a: "query_first (\<lambda>u. uid u = ap_user_id request) db = Some old
              \<and> (Role_of (ap_role request) = None \<or> Role_of (ap_role request) = Some PENDING)"
  then have "requested_role_of (ap_role request) = None"
    by (simp add: requested_role_of_None)
  with a assms show "approve_user_endpoint key c now db tok request
                = (Inl (HTTPException 400 (Msg (''Invalid role: '' @ ap_role request))), db)"
    by (simp add: approve_user_endpoint_def approve_user_def)
next
  fix old r
  assume a: "query_first (\<lambda>u. uid u = ap_user_id request) db = Some old
              \<and> Role_of (ap_role request) = Some r \<and> r \<noteq> PENDING"
  let ?new = "old\<lparr>is_approved := True, approved_at := Some now, registered_date := Some now,
             approved_by_id := get current_user ''sub'', role := ap_role request,
             is_rejected := False, rejection_reason := None,
             approval_notes := ap_approval_notes request\<rparr>"
  from a have old: "query_first (\<lambda>u. uid u = ap_user_id request) db = Some old"
    and r: "Role_of (ap_role request) = Some r" "r \<noteq> PENDING" by simp_all
  have 1: "approve_user_endpoint key Committed now db tok request
             = (Inr (ApproveUserResponse
                      (''User '' @ email old @ '' has been approved as '' @ ap_role request)
                      (uid old) (ap_role request) True),
                update_row ?new db)"
    using assms approve_user_committed [OF old r, of now current_user]
    by (simp add: approve_user_endpoint_def)
  have 2: "query_first (\<lambda>u. uid u = ap_user_id request) (update_row ?new db) = Some ?new"
    by (rule query_first_update_row [OF old]) simp
  have 3: "rejected_at ?new = rejected_at old" "rejected_by_id ?new = rejected_by_id old"
    by simp_all
  from 1 2 3 show "\<exists>resp new by_id.
                  approve_user_endpoint key Committed now db tok request
                    = (Inr resp, update_row new db)
                  \<and> query_first (\<lambda>u. uid u = ap_user_id request) (update_row new db) = Some new
                  \<and> new = old\<lparr>is_approved := True, approved_at := Some now,
                                registered_date := Some now, approved_by_id := by_id,
                                role := ap_role request, is_rejected := False,
                                rejection_reason := None,
                                approval_notes := ap_approval_notes request\<rparr>
                  \<and> rejected_at new = rejected_at old
                  \<and> rejected_by_id new = rejected_by_id old"
    by blast
qed

text \<open>
  The claim as the specification states it fails at the account that was rejected at 50
  by the administrator 9: after the approval the row still has both values.
\<close>

theorem approve_keeps_rejection_stamp_counterexample:
  "fst (approve_user_endpoint ''k'' Committed 100 [rejected_account]
          (create_access_token ''k'' 0 admin_payload) (approve_as_teacher 2))
     = Inr (ApproveUserResponse ''User b@x.com has been approved as teacher'' 2 ''teacher'' True)
   \<and> map rejected_at
        (snd (approve_user_endpoint ''k'' Committed 100 [rejected_account]
                (create_access_token ''k'' 0 admin_payload) (approve_as_teacher 2)))
      = [Some 50]
   \<and> map rejected_by_id
        (snd (approve_user_endpoint ''k'' Committed 100 [rejected_account]
                (create_access_token ''k'' 0 admin_payload) (approve_as_teacher 2)))
      = [JInt 9]"
  by (simp add: approve_user_endpoint_def require_role_def role_checker_def
        get_current_user_def token_defs admin_payload_def admin_roles_def
        approve_user_def requested_role_of_def Role_of_def query_first_def
        update_row_def rejected_account_def User_def approve_as_teacher_def Let_def)

text \<open>
  The theorem at the administrator's token: an id that is not in the table, the target
  role \<open>pending\<close>, and the approval of the rejected account as teacher.
\<close>

theorem approve_user_effect_witness:
  "require_role admin_roles ''k'' 100 (create_access_token ''k'' 0 admin_payload)
     = Inr (payload_of (create_access_token ''k'' 0 admin_payload))
   \<and> approve_user_endpoint ''k'' Committed 100 [rejected_account]
        (create_access_token ''k'' 0 admin_payload) (approve_as_teacher 5)
      = (Inl (HTTPException 404 (Msg ''User with ID 5 not found'')), [rejected_account])
   \<and> approve_user_endpoint ''k'' Committed 100 [rejected_account]
        (create_access_token ''k'' 0 admin_payload)
        \<lparr>ap_user_id = 2, ap_approval_notes = None, ap_role = ''pending''\<rparr>
      = (Inl (HTTPException 400 (Msg ''Invalid role: pending'')), [rejected_account])
   \<and> map is_approved
        (snd (approve_user_endpoint ''k'' Committed 100 [rejected_account]
                (create_access_token ''k'' 0 admin_payload) (approve_as_teacher 2)))
      = [True]
   \<and> map role
        (snd (approve_user_endpoint ''k'' Committed 100 [rejected_account]
                (create_access_token ''k'' 0 admin_payload) (approve_as_teacher 2)))
      = [''teacher'']"
proof -
  let ?tok = "create_access_token ''k'' 0 admin_payload"
  let ?pend = "\<lparr>ap_user_id = 2, ap_approval_notes = None, ap_role = ''pending''\<rparr>"
  have h: "require_role admin_roles ''k'' 100 ?tok = Inr (payload_of ?tok)"
    by (simp add: require_role_def role_checker_def get_current_user_def token_defs
          admin_payload_def admin_roles_def)
  have q5: "query_first (\<lambda>u. uid u = ap_user_id (approve_as_teacher 5)) [rejected_account] = None"
    by (simp add: query_first_def rejected_account_def User_def approve_as_teacher_def)
  have q2: "query_first (\<lambda>u. uid u = ap_user_id ?pend) [rejected_account]
              = Some rejected_account
            \<and> (Role_of (ap_role ?pend) = None \<or> Role_of (ap_role ?pend) = Some PENDING)"
    by (simp add: query_first_def rejected_account_def User_def Role_of_def)
  have q3: "query_first (\<lambda>u. uid u = ap_user_id (approve_as_teacher 2)) [rejected_account]
              = Some rejected_account
            \<and> Role_of (ap_role (approve_as_teacher 2)) = Some TEACHER \<and> TEACHER \<noteq> PENDING"
    by (simp add: query_first_def rejected_account_def User_def Role_of_def
          approve_as_teacher_def)
  have c1: "approve_user_endpoint ''k'' Committed 100 [rejected_account] ?tok
              (approve_as_teacher 5)
            = (Inl (HTTPException 404 (Msg ''User with ID 5 not found'')), [rejected_account])"
    using approve_user_effect [OF h, of "approve_as_teacher 5" "[rejected_account]" Committed] q5
    by (simp add: approve_as_teacher_def str_int_def)
  have c2: "approve_user_endpoint ''k'' Committed 100 [rejected_account] ?tok ?pend
            = (Inl (HTTPException 400 (Msg ''Invalid role: pending'')), [rejected_account])"
    using approve_user_effect [OF h, of ?pend "[rejected_account]" Committed] q2
    by simp
  from approve_user_effect [OF h, of "approve_as_teacher 2" "[rejected_account]" Committed] q3
  obtain resp new by_id where
    e: "approve_user_endpoint ''k'' Committed 100 [rejected_account] ?tok (approve_as_teacher 2)
          = (Inr resp, update_row new [rejected_account])"
    and n: "new = rejected_account\<lparr>is_approved := True, approved_at := Some 100,
                                registered_date := Some 100, approved_by_id := by_id,
                                role := ap_role (approve_as_teacher 2), is_rejected := False,
                                rejection_reason := None,
                                approval_notes := ap_approval_notes (approve_as_teacher 2)\<rparr>"
    by blast
  have c3: "map is_approved (snd (approve_user_endpoint ''k'' Committed 100 [rejected_account]
                ?tok (approve_as_teacher 2))) = [True]"
    and c4: "map role (snd (approve_user_endpoint ''k'' Committed 100 [rejected_account]
                ?tok (approve_as_teacher 2))) = [''teacher'']"
    unfolding e n by (simp_all add: update_row_def approve_as_teacher_def)
  from h c1 c2 c3 c4 show ?thesis by simp
qed

section \<open>Facts about the password reset\<close>

lemma reset_password_cases:
  assumes "is_valid (validate_password new_password [])"
  shows "reset_password c salt now db tok new_password =
     (case query_first (\<lambda>u. password_reset_token u = Some tok) db of
        None \<Rightarrow>
          (Inl (HTTPException 400
             (Msg ''Invalid or expired password reset link. Please request a new one.'')), db)
      | Some u \<Rightarrow>
          if password_reset_expires u = None
             \<or> (\<exists>e. password_reset_expires u = Some e \<and> e < now)
          then (Inl (HTTPException 400
                  (Msg ''Password reset link has expired. Please request a new one.'')), db)
          else if c = Committed
          then (Inr (ResetPasswordResponse
                       '' Your password has been successfully reset. You can now login with your new password.''
                       (email u)),
                update_row
                  (u\<lparr>hashed_password := hash_password salt new_password,
                      password_reset_token := None, password_reset_expires := None,
                      password_reset_requested_at := None\<rparr>) db)
          else (Inl (HTTPException 500 (Msg ''Failed to reset password'')), db))"
  using assms
  by (auto simp: reset_password_def Let_def split: option.splits commit.splits)

lemma reset_password_failure_keeps_table:
  "fst (reset_password c salt now db tok new_password) = Inl e \<Longrightarrow>
     snd (reset_password c salt now db tok new_password) = db"
  by (auto simp: reset_password_def Let_def split: option.splits commit.splits if_splits)

lemma update_row_member:
  "u \<in> set db \<Longrightarrow> uid new = uid u \<Longrightarrow> new \<in> set (update_row new db)"
  by (induction db) (auto simp: update_row_def)


lemma new_password_is_valid: "is_valid (validate_password ''N3w$ecretPassw0rd'' [])"
  unfolding validate_password_is_valid validate_password_errors validate_errors
  by simp

text \<open>
  C4, as the code has it. For a new password that passes the policy, \<open>reset_password\<close>
  answers 400 exactly when no account holds the ticket (detail
  \<open>Invalid or expired password reset link\<close>) or the account that holds it has no
  expiry or an expiry strictly before the current time (detail
  \<open>Password reset link has expired\<close>). A ticket whose expiry equals the current time
  is accepted. On success the row of the account has the hash of the new password and no
  ticket, expiry or request time, and the other rows are as they were.
\<close>

theorem reset_password_outcome:
  assumes "is_valid (validate_password new_password [])"
  shows "((\<exists>d. fst (reset_password c salt now db tok new_password) = Inl (HTTPException 400 d))
          \<longleftrightarrow> query_first (\<lambda>u. password_reset_token u = Some tok) db = None
              \<or> (\<exists>u. query_first (\<lambda>u. password_reset_token u = Some tok) db = Some u
                     \<and> (password_reset_expires u = None
                          \<or> (\<exists>e. password_reset_expires u = Some e \<and> e < now))))
    \<and> (fst (reset_password c salt now db tok new_password)
           = Inl (HTTPException 400
               (Msg ''Invalid or expired password reset link. Please request a new one.''))
          \<longleftrightarrow> query_first (\<lambda>u. password_reset_token u = Some tok) db = None)
    \<and> (fst (reset_password c salt now db tok new_password)
           = Inl (HTTPException 400
               (Msg ''Password reset link has expired. Please request a new one.''))
          \<longleftrightarrow> (\<exists>u. query_first (\<lambda>u. password_reset_token u = Some tok) db = Some u
                     \<and> (password_reset_expires u = None
                          \<or> (\<exists>e. password_reset_expires u = Some e \<and> e < now))))
    \<and> (\<forall>u. query_first (\<lambda>u. password_reset_token u = Some tok) db = Some u
              \<and> password_reset_expires u = Some now
          \<longrightarrow> (\<exists>resp db'. reset_password Committed salt now db tok new_password
                              = (Inr resp, db')))
    \<and> (\<forall>resp db'. reset_password c salt now db tok new_password = (Inr resp, db')
          \<longrightarrow> (\<exists>u. query_first (\<lambda>u. password_reset_token u = Some tok) db = Some u
                    \<and> db' = update_row
                         (u\<lparr>hashed_password := hash_password salt new_password,
                             password_reset_token := None, password_reset_expires := None,
                             password_reset_requested_at := None\<rparr>) db
                    \<and> u\<lparr>hashed_password := hash_password salt new_password,
                          password_reset_token := None, password_reset_expires := None,
                          password_reset_requested_at := None\<rparr> \<in> set db'))"
proof -
  note rp = reset_password_cases [OF assms, of c salt now db tok]
  show ?thesis
  proof (cases "query_first (\<lambda>u. password_reset_token u = Some tok) db")
    case None
    with rp reset_password_cases [OF assms, of Committed salt now db tok]
    show ?thesis by simp
  next
    case (Some u)
    let ?new = "u\<lparr>hashed_password := hash_password salt new_password,
                   password_reset_token := None, password_reset_expires := None,
                   password_reset_requested_at := None\<rparr>"
    from Some have "u \<in> set db" using query_first_Some by fastforce
    then have m: "?new \<in> set (update_row ?new db)"
      by (rule update_row_member) simp
    show ?thesis
    proof (cases "password_reset_expires u = None
                    \<or> (\<exists>e. password_reset_expires u = Some e \<and> e < now)")
      case True
      with Some rp reset_password_cases [OF assms, of Committed salt now db tok]
      show ?thesis by auto
    next
      case False
      with Some rp reset_password_cases [OF assms, of Committed salt now db tok] m
      show ?thesis by (cases c) auto
    qed
  qed
qed

text \<open>
  The claim as the specification states it fails at a ticket whose expiry is the current
  time: the ticket of the teacher expires at 4600, and at 4600 the reset succeeds.
\<close>

theorem reset_at_expiry_time_counterexample:
  "password_reset_token teacher_with_ticket = Some ''ticket''
   \<and> password_reset_expires teacher_with_ticket = Some 4600
   \<and> fst (reset_password Committed 3 4600 [teacher_with_ticket] ''ticket'' ''N3w$ecretPassw0rd'')
       = Inr (ResetPasswordResponse
                '' Your password has been successfully reset. You can now login with your new password.''
                ''a@x.com'')"
  unfolding reset_password_cases [OF new_password_is_valid]
  by (simp add: query_first_def teacher_with_ticket_def teacher_account_def User_def)

text \<open>
  The theorem at the ticket of the teacher: an unknown ticket, the ticket one second
  after its expiry, the ticket at its expiry, and the table after the reset.
\<close>

theorem reset_password_outcome_witness:
  "is_valid (validate_password ''N3w$ecretPassw0rd'' [])
   \<and> fst (reset_password Committed 3 4600 [teacher_with_ticket] ''other'' ''N3w$ecretPassw0rd'')
       = Inl (HTTPException 400
           (Msg ''Invalid or expired password reset link. Please request a new one.''))
   \<and> fst (reset_password Committed 3 4601 [teacher_with_ticket] ''ticket'' ''N3w$ecretPassw0rd'')
       = Inl (HTTPException 400
           (Msg ''Password reset link has expired. Please request a new one.''))
   \<and> snd (reset_password Committed 3 4600 [teacher_with_ticket] ''ticket'' ''N3w$ecretPassw0rd'')
       = [teacher_account\<lparr>hashed_password := hash_password 3 ''N3w$ecretPassw0rd''\<rparr>]"
proof -
  note v = new_password_is_valid
  have q0: "query_first (\<lambda>u. password_reset_token u = Some ''other'') [teacher_with_ticket] = None"
    by (simp add: query_first_def teacher_with_ticket_def)
  have q1: "query_first (\<lambda>u. password_reset_token u = Some ''ticket'') [teacher_with_ticket]
              = Some teacher_with_ticket"
    by (simp add: query_first_def teacher_with_ticket_def)
  have x: "password_reset_expires teacher_with_ticket = Some 4600"
    by (simp add: teacher_with_ticket_def)
  have c1: "fst (reset_password Committed 3 4600 [teacher_with_ticket] ''other'' ''N3w$ecretPassw0rd'')
       = Inl (HTTPException 400
           (Msg ''Invalid or expired password reset link. Please request a new one.''))"
    using reset_password_outcome [OF v, of Committed 3 4600 "[teacher_with_ticket]" "''other''"] q0
    by blast
  have c2: "fst (reset_password Committed 3 4601 [teacher_with_ticket] ''ticket'' ''N3w$ecretPassw0rd'')
       = Inl (HTTPException 400
           (Msg ''Password reset link has expired. Please request a new one.''))"
    using reset_password_outcome [OF v, of Committed 3 4601 "[teacher_with_ticket]" "''ticket''"]
      q1 x by simp
  from reset_password_outcome [OF v, of Committed 3 4600 "[teacher_with_ticket]" "''ticket''"]
    q1 x
  obtain resp db' where
    r: "reset_password Committed 3 4600 [teacher_with_ticket] ''ticket'' ''N3w$ecretPassw0rd''
          = (Inr resp, db')"
    by blast
  with reset_password_outcome [OF v, of Committed 3 4600 "[teacher_with_ticket]" "''ticket''"]
    q1
  have "db' = update_row
                (teacher_with_ticket\<lparr>hashed_password := hash_password 3 ''N3w$ecretPassw0rd'',
                   password_reset_token := None, password_reset_expires := None,
                   password_reset_requested_at := None\<rparr>) [teacher_with_ticket]"
    by simp
  with r have c3: "snd (reset_password Committed 3 4600 [teacher_with_ticket] ''ticket''
                     ''N3w$ecretPassw0rd'')
       = [teacher_account\<lparr>hashed_password := hash_password 3 ''N3w$ecretPassw0rd''\<rparr>]"
    by (simp add: update_row_def teacher_with_ticket_def teacher_account_def User_def)
  from v c1 c2 c3 show ?thesis by simp
qed

text \<open>
  C10. A \<open>reset_password\<close> call that fails, for whatever reason, leaves the table as it
  was: the hash and the three reset columns of every account keep their values. A ticket
  that was rejected as expired is therefore still in the table, and a later attempt with
  it is rejected as expired again.
\<close>

theorem failed_reset_password_changes_nothing:
  "(\<forall>e. fst (reset_password c salt now db tok new_password) = Inl e
        \<longrightarrow> snd (reset_password c salt now db tok new_password) = db)
   \<and> (fst (reset_password c salt now db tok new_password)
         = Inl (HTTPException 400
             (Msg ''Password reset link has expired. Please request a new one.''))
       \<and> now \<le> later
       \<longrightarrow> query_first (\<lambda>u. password_reset_token u = Some tok)
             (snd (reset_password c salt now db tok new_password)) \<noteq> None
           \<and> fst (reset_password c' salt' later
                    (snd (reset_password c salt now db tok new_password)) tok new_password)
               = Inl (HTTPException 400
                   (Msg ''Password reset link has expired. Please request a new one.'')))"
proof (intro conjI allI impI)
  fix e
  assume "fst (reset_password c salt now db tok new_password) = Inl e"
  then show "snd (reset_password c salt now db tok new_password) = db"
    by (rule reset_password_failure_keeps_table)
next
  assume a: "fst (reset_password c salt now db tok new_password)
         = Inl (HTTPException 400
             (Msg ''Password reset link has expired. Please request a new one.''))
       \<and> now \<le> later"
  then have s: "snd (reset_password c salt now db tok new_password) = db"
    using reset_password_failure_keeps_table by blast
  from a have v: "is_valid (validate_password new_password [])"
    by (auto simp: reset_password_def Let_def split: if_splits)
  from a reset_password_cases [OF v, of c salt now db tok]
  obtain u where u: "query_first (\<lambda>u. password_reset_token u = Some tok) db = Some u"
    and x: "password_reset_expires u = None
              \<or> (\<exists>e. password_reset_expires u = Some e \<and> e < now)"
    by (auto split: option.splits if_splits)
  from x a have "password_reset_expires u = None
              \<or> (\<exists>e. password_reset_expires u = Some e \<and> e < later)"
    by auto
  with u s reset_password_cases [OF v, of c' salt' later db tok]
  show "query_first (\<lambda>u. password_reset_token u = Some tok)
             (snd (reset_password c salt now db tok new_password)) \<noteq> None"
    and "fst (reset_password c' salt' later
                    (snd (reset_password c salt now db tok new_password)) tok new_password)
               = Inl (HTTPException 400
                   (Msg ''Password reset link has expired. Please request a new one.''))"
    by simp_all
qed

text \<open>
  The theorem at the ticket of the teacher, presented at 8200 and again at 9000.
\<close>

theorem failed_reset_password_changes_nothing_witness:
  "fst (reset_password Committed 3 8200 [teacher_with_ticket] ''ticket'' ''N3w$ecretPassw0rd'')
     = Inl (HTTPException 400
         (Msg ''Password reset link has expired. Please request a new one.''))
   \<and> (8200::int) \<le> 9000
   \<and> snd (reset_password Committed 3 8200 [teacher_with_ticket] ''ticket'' ''N3w$ecretPassw0rd'')
     = [teacher_with_ticket]
   \<and> fst (reset_password Committed 4 9000
            (snd (reset_password Committed 3 8200 [teacher_with_ticket] ''ticket''
                    ''N3w$ecretPassw0rd''))
            ''ticket'' ''N3w$ecretPassw0rd'')
     = Inl (HTTPException 400
         (Msg ''Password reset link has expired. Please request a new one.''))"
proof -
  have f: "fst (reset_password Committed 3 8200 [teacher_with_ticket] ''ticket''
                  ''N3w$ecretPassw0rd'')
     = Inl (HTTPException 400
         (Msg ''Password reset link has expired. Please request a new one.''))"
    unfolding reset_password_cases [OF new_password_is_valid]
    by (simp add: query_first_def teacher_with_ticket_def)
  have l: "(8200::int) \<le> 9000" by simp
  from failed_reset_password_changes_nothing [of Committed 3 8200 "[teacher_with_ticket]"
      "''ticket''" "''N3w$ecretPassw0rd''" 9000 Committed 4] f l
  have "snd (reset_password Committed 3 8200 [teacher_with_ticket] ''ticket''
               ''N3w$ecretPassw0rd'') = [teacher_with_ticket]"
    and "fst (reset_password Committed 4 9000
            (snd (reset_password Committed 3 8200 [teacher_with_ticket] ''ticket''
                    ''N3w$ecretPassw0rd''))
            ''ticket'' ''N3w$ecretPassw0rd'')
     = Inl (HTTPException 400
         (Msg ''Password reset link has expired. Please request a new one.''))"
    by blast+
  with f l show ?thesis by (intro conjI)
qed

section \<open>Facts about the forgotten password and the email check\<close>

lemma forgot_password_response:
  "fst (forgot_password c mail_raises reset_token expiry_hours now db e)
     = ForgotPasswordResponse
         ''If this email is registered, you will receive a password reset link shortly.'' e"
  by (simp add: forgot_password_def Let_def split: option.splits commit.splits)

lemma check_email_iff:
  "e \<noteq> [] \<Longrightarrow> check_email db e = Exists (e \<in> set (map email db))"
  by (auto simp: check_email_def user_exists_def nonempty_def query_first_def
        find_None_iff)

text \<open>
  C8, as the code has it. The response of \<open>forgot_password\<close> is the generic message
  and the email of the request, whatever the table holds and whatever happens inside:
  the expiry setting that is no integer, the commit that fails, the notification that
  raises. So two requests for one address get the same response whether or not the
  address is registered. \<open>check_email\<close> is the exception among the endpoints: it
  answers whether the address is in the table.
\<close>

theorem forgot_password_response_is_generic:
  "fst (forgot_password c mail_raises reset_token expiry_hours now db e)
     = ForgotPasswordResponse
         ''If this email is registered, you will receive a password reset link shortly.'' e
   \<and> fst (forgot_password c mail_raises reset_token expiry_hours now db e)
     = fst (forgot_password c' mail_raises' reset_token' expiry_hours' now' db' e)
   \<and> (e \<noteq> [] \<longrightarrow> check_email db e = Exists (e \<in> set (map email db)))"
  by (simp add: forgot_password_response check_email_iff del: set_map)

text \<open>
  The claim as the specification states it fails at \<open>check_email\<close>: with the teacher
  in the table it tells the registered address from one that is not registered.
\<close>

theorem check_email_reveals_registration_counterexample:
  "check_email [teacher_account] ''a@x.com'' = Exists True
   \<and> check_email [teacher_account] ''nobody@x.com'' = Exists False"
  by (simp add: check_email_iff teacher_account_def User_def)

text \<open>
  The theorem at the address of the teacher: a request that succeeds against the table
  that holds it, and a request where everything fails against the empty table.
\<close>

theorem forgot_password_response_is_generic_witness:
  "''a@x.com'' \<noteq> []
   \<and> check_email [teacher_account] ''a@x.com'' = Exists True
   \<and> fst (forgot_password Committed False ''t1'' (Some 1) 100 [teacher_account] ''a@x.com'')
     = fst (forgot_password SQLAlchemyError True ''t2'' None 200 [] ''a@x.com'')"
proof -
  have n: "''a@x.com'' \<noteq> []" by simp
  from forgot_password_response_is_generic [of Committed False "''t1''" "Some 1" 100
      "[teacher_account]" "''a@x.com''" SQLAlchemyError True "''t2''" None 200 "[]"] n
  have a: "fst (forgot_password Committed False ''t1'' (Some 1) 100 [teacher_account] ''a@x.com'')
     = fst (forgot_password SQLAlchemyError True ''t2'' None 200 [] ''a@x.com'')"
    and b: "check_email [teacher_account] ''a@x.com''
              = Exists (''a@x.com'' \<in> set (map email [teacher_account]))"
    by blast+
  have "(''a@x.com'' \<in> set (map email [teacher_account])) = True"
    by (simp add: teacher_account_def User_def)
  with b have "check_email [teacher_account] ''a@x.com'' = Exists True"
    by (simp only:)
  with a n show ?thesis by (intro conjI)
qed

section \<open>Facts about the account invariant\<close>

lemma store_invariant_member:
  "store_invariant db \<Longrightarrow> u \<in> set db \<Longrightarrow> account_invariant u"
  by (simp add: store_invariant_def list_all_iff)

lemma store_invariant_update_row:
  "store_invariant db \<Longrightarrow> account_invariant u \<Longrightarrow> store_invariant (update_row u db)"
  by (induction db) (auto simp: store_invariant_def update_row_def)

lemma store_invariant_delete_row:
  "store_invariant db \<Longrightarrow> store_invariant (delete_row u db)"
  by (simp add: store_invariant_def delete_row_def list_all_iff)

lemma store_invariant_found:
  "store_invariant db \<Longrightarrow> query_first P db = Some u \<Longrightarrow> account_invariant u"
  using query_first_Some store_invariant_member by blast

lemma role_value_pending: "role_value r = ''pending'' \<longleftrightarrow> r = PENDING"
  by (cases r) simp_all

lemma valid_roles_not_pending: "v \<in> set valid_roles \<Longrightarrow> v \<noteq> ''pending''"
  by (auto simp: valid_roles_def)

lemma create_user_call_raises:
  "unexpected_keywords
     [''db'', ''email'', ''username'', ''password'', ''first_name'', ''last_name'',
      ''desired_name'', ''phone''] \<noteq> []"
  "unexpected_keywords
     [''db'', ''email'', ''password'', ''first_name'', ''last_name'', ''username'',
      ''desired_name'', ''phone''] \<noteq> []"
  by (simp_all add: unexpected_keywords_def create_user_params_def)

lemma register_keeps_table: "snd (register c salt db user_data) = db"
  by (simp add: register_def Let_def create_user_call_raises)

lemma create_educator_keeps_table:
  "snd (create_educator c c2 salt now db request current_user) = db"
  by (simp add: create_educator_def create_user_call_raises)

lemma forgot_password_invariant:
  assumes "store_invariant db"
  shows "store_invariant (snd (forgot_password c mail_raises reset_token expiry_hours now db e))"
proof (cases "get_user_by_email db e")
  case None
  with assms show ?thesis by (simp add: forgot_password_def)
next
  case (Some u)
  then have "account_invariant u"
    using assms by (auto simp: get_user_by_email_def dest: store_invariant_found)
  then have "account_invariant
      (u\<lparr>password_reset_token := Some reset_token,
         password_reset_expires := Some (now + h * 3600),
         password_reset_requested_at := Some now\<rparr>)" for h
    by (simp add: account_invariant_def)
  with assms Some show ?thesis
    by (auto simp: forgot_password_def Let_def store_invariant_update_row
             split: option.splits commit.splits)
qed

lemma reset_password_invariant:
  assumes "store_invariant db"
  shows "store_invariant (snd (reset_password c salt now db tok new_password))"
proof (cases "query_first (\<lambda>u. password_reset_token u = Some tok) db")
  case None
  with assms show ?thesis by (simp add: reset_password_def Let_def)
next
  case (Some u)
  then have "account_invariant u" using assms store_invariant_found by blast
  then have "account_invariant
      (u\<lparr>hashed_password := hash_password salt new_password,
         password_reset_token := None, password_reset_expires := None,
         password_reset_requested_at := None\<rparr>)"
    by (simp add: account_invariant_def)
  with assms Some show ?thesis
    by (auto simp: reset_password_def Let_def store_invariant_update_row
             split: option.splits commit.splits)
qed

lemma approve_user_invariant:
  assumes "store_invariant db"
  shows "store_invariant (snd (approve_user c now db request current_user))"
proof (cases "query_first (\<lambda>u. uid u = ap_user_id request) db")
  case None
  with assms show ?thesis by (simp add: approve_user_def)
next
  case (Some u)
  have "account_invariant
      (u\<lparr>is_approved := True, approved_at := Some now, registered_date := Some now,
         approved_by_id := get current_user ''sub'', role := role_value r,
         is_rejected := False, rejection_reason := None,
         approval_notes := ap_approval_notes request\<rparr>)"
    if "r \<noteq> PENDING" for r
    using that by (simp add: account_invariant_def role_value_pending)
  with assms Some show ?thesis
    by (auto simp: approve_user_def Let_def store_invariant_update_row
                   requested_role_of_Some
             split: option.splits commit.splits)
qed

lemma reject_user_invariant:
  assumes "store_invariant db"
  shows "store_invariant (snd (reject_user c now db i reason current_user))"
proof (cases "query_first (\<lambda>u. uid u = i) db")
  case None
  with assms show ?thesis by (simp add: reject_user_def)
next
  case (Some u)
  then have "account_invariant u" using assms store_invariant_found by blast
  then have "account_invariant
      (u\<lparr>is_rejected := True, rejected_at := Some now,
         rejected_by_id := get current_user ''sub'',
         rejection_reason := Some reason, is_active := False\<rparr>)"
    by (simp add: account_invariant_def)
  with assms Some show ?thesis
    by (auto simp: reject_user_def Let_def store_invariant_update_row
             split: commit.splits)
qed

lemma delete_educator_invariant:
  assumes "store_invariant db"
  shows "store_invariant (snd (delete_educator c db i))"
  using assms
  by (auto simp: delete_educator_def store_invariant_delete_row
           split: option.splits commit.splits)


lemma update_fields_is_approved:
  "is_approved (update_fields request u) = is_approved u"
  by (simp add: update_fields_def Let_def split: option.splits)

lemma update_fields_role:
  "role (update_fields request u) = (case ue_role request of None \<Rightarrow> role u | Some v \<Rightarrow> v)"
  by (simp add: update_fields_def Let_def split: option.splits)

lemma update_educator_invariant:
  assumes "store_invariant db"
  shows "store_invariant (snd (update_educator c db i request))"
proof (cases "query_first (\<lambda>u. uid u = i) db")
  case None
  with assms show ?thesis by (simp add: update_educator_def)
next
  case (Some u)
  then have inv: "account_invariant u" using assms store_invariant_found by blast
  show ?thesis
  proof (cases "nonempty (ue_role request) \<and> or_empty (ue_role request) \<notin> set valid_roles")
    case True
    with assms Some show ?thesis by (simp add: update_educator_def)
  next
    case False
    have "account_invariant (update_fields request u)"
    proof (cases "ue_role request")
      case None
      with inv show ?thesis
        by (simp add: account_invariant_def update_fields_is_approved update_fields_role)
    next
      case (Some v)
      with False have "v = [] \<or> v \<in> set valid_roles"
        by (auto simp: nonempty_def or_empty_def)
      then have "v \<noteq> ''pending''" using valid_roles_not_pending by auto
      with Some show ?thesis
        by (simp add: account_invariant_def update_fields_role)
    qed
    with assms Some False show ?thesis
      by (auto simp: update_educator_def Let_def store_invariant_update_row
               split: commit.splits)
  qed
qed


lemma auth_step_invariant:
  "store_invariant db \<Longrightarrow> store_invariant (auth_step now rq db)"
  by (cases rq)
     (simp_all add: register_keeps_table create_educator_keeps_table
        forgot_password_invariant reset_password_invariant approve_user_invariant
        reject_user_invariant update_educator_invariant delete_educator_invariant)

lemma create_user_defaults:
  assumes "create_user c db salt e n pw fn ln default_role default_is_approved = Inr (u, db')"
  shows "role u = ''pending'' \<and> is_approved u = False \<and> account_invariant u
         \<and> db' = db @ [u]"
proof -
  from assms have u: "u = User (next_id db) salt e n pw fn ln default_role default_is_approved"
    and d: "db' = db @ [u]"
    by (auto simp: create_user_def Let_def split: commit.splits)
  have "role u = ''pending''" "is_approved u = False"
    unfolding u by (simp_all add: User_def default_role_def default_is_approved_def)
  with d show ?thesis by (simp add: account_invariant_def)
qed

lemma approve_user_sets_role:
  assumes "approve_user c now db request current_user = (Inr resp, db')"
  shows "\<exists>u. query_first (\<lambda>u. uid u = ap_user_id request) db' = Some u
            \<and> is_approved u = True \<and> role u \<noteq> ''pending''"
proof -
  from approve_user_Inr [OF assms] obtain old r where
    old: "query_first (\<lambda>u. uid u = ap_user_id request) db = Some old"
    and r: "Role_of (ap_role request) = Some r" "r \<noteq> PENDING" and c: "c = Committed"
    by blast
  let ?new = "old\<lparr>is_approved := True, approved_at := Some now, registered_date := Some now,
             approved_by_id := get current_user ''sub'', role := ap_role request,
             is_rejected := False, rejection_reason := None,
             approval_notes := ap_approval_notes request\<rparr>"
  from assms c approve_user_committed [OF old r, of now current_user]
  have "db' = update_row ?new db" by simp
  moreover have "query_first (\<lambda>u. uid u = ap_user_id request) (update_row ?new db) = Some ?new"
    by (rule query_first_update_row [OF old]) simp
  moreover have "ap_role request \<noteq> ''pending''"
    using Role_of_Some [OF r(1)] role_value_pending [of r] r(2) by simp
  ultimately show ?thesis by (intro exI [of _ ?new]) simp
qed

text \<open>
  C9, as the code has it. Every request of the authentication router that writes the
  table keeps the invariant that a pending account is not approved. \<open>create_user\<close>
  with the defaults of its parameters makes a pending account that is not approved;
  a successful \<open>approve_user\<close> leaves the account approved with a role that is not
  \<open>pending\<close>; the assignments of \<open>create_educator\<close> give an approved row one of
  the valid roles. The invariant does not hold after every operation of the backend:
  \<open>update_user\<close> of the users router is outside this statement.
\<close>

theorem auth_requests_preserve_account_invariant:
  "(store_invariant db \<longrightarrow> store_invariant (auth_step now rq db))
   \<and> (\<forall>u db'. create_user c db salt e n pw fn ln default_role default_is_approved
                  = Inr (u, db')
         \<longrightarrow> role u = ''pending'' \<and> is_approved u = False \<and> account_invariant u
             \<and> db' = db @ [u])
   \<and> (\<forall>resp db'. approve_user c now db request current_user = (Inr resp, db')
         \<longrightarrow> (\<exists>u. query_first (\<lambda>u. uid u = ap_user_id request) db' = Some u
                   \<and> is_approved u = True \<and> role u \<noteq> ''pending''))
   \<and> (v \<in> set valid_roles
         \<longrightarrow> account_invariant
               (created\<lparr>role := v, is_approved := True, approved_at := Some now,
                        registered_date := Some now, approved_by_id := by_id\<rparr>))"
proof (intro conjI allI impI)
  assume "store_invariant db"
  then show "store_invariant (auth_step now rq db)" by (rule auth_step_invariant)
next
  fix u db'
  assume "create_user c db salt e n pw fn ln default_role default_is_approved = Inr (u, db')"
  from create_user_defaults [OF this]
  show "role u = ''pending''" "is_approved u = False" "account_invariant u" "db' = db @ [u]"
    by simp_all
next
  fix resp db'
  assume "approve_user c now db request current_user = (Inr resp, db')"
  then show "\<exists>u. query_first (\<lambda>u. uid u = ap_user_id request) db' = Some u
                   \<and> is_approved u = True \<and> role u \<noteq> ''pending''"
    by (rule approve_user_sets_role)
next
  assume "v \<in> set valid_roles"
  then have "v \<noteq> ''pending''" by (rule valid_roles_not_pending)
  then show "account_invariant
               (created\<lparr>role := v, is_approved := True, approved_at := Some now,
                        registered_date := Some now, approved_by_id := by_id\<rparr>)"
    by (simp add: account_invariant_def)
qed

text \<open>
  The claim as the specification states it fails at \<open>update_user\<close>: on the table that
  holds the approved teacher, a request with the role \<open>pending\<close> is committed and
  leaves an approved account with the role \<open>pending\<close>.
\<close>

theorem update_user_breaks_invariant_counterexample:
  "store_invariant [teacher_account]
   \<and> map role (snd (update_user Committed reject_all_images [teacher_account] 1
                      (only_role ''pending''))) = [''pending'']
   \<and> map is_approved (snd (update_user Committed reject_all_images [teacher_account] 1
                             (only_role ''pending''))) = [True]
   \<and> \<not> store_invariant (snd (update_user Committed reject_all_images [teacher_account] 1
                                (only_role ''pending'')))"
  by (simp add: update_user_def Let_def query_first_def update_row_def nonempty_def
        or_empty_def only_role_def teacher_account_def User_def store_invariant_def
        account_invariant_def)

text \<open>
  The theorem at the table that holds the rejected, pending account: its approval as
  teacher, the account \<open>create_user\<close> adds to that table, and the educator
  assignments with the role \<open>teacher\<close>.
\<close>

theorem auth_requests_preserve_account_invariant_witness:
  "store_invariant [rejected_account]
   \<and> store_invariant
        (auth_step 100
           (ApproveUser Committed (approve_as_teacher 2)
              (payload_of (create_access_token ''k'' 0 admin_payload)))
           [rejected_account])
   \<and> map role (snd (approve_user Committed 100 [rejected_account] (approve_as_teacher 2)
                      (payload_of (create_access_token ''k'' 0 admin_payload))))
       = [''teacher'']
   \<and> create_user Committed [rejected_account] 7 ''a@x.com'' ''auser'' ''Sup3r$ecretPass!'' None None
        default_role default_is_approved
       = Inr (User 3 7 ''a@x.com'' ''auser'' ''Sup3r$ecretPass!'' None None ''pending'' False,
              [rejected_account,
               User 3 7 ''a@x.com'' ''auser'' ''Sup3r$ecretPass!'' None None ''pending'' False])
   \<and> account_invariant (User 3 7 ''a@x.com'' ''auser'' ''Sup3r$ecretPass!'' None None
                           ''pending'' False)
   \<and> ''teacher'' \<in> set valid_roles
   \<and> account_invariant
        (rejected_account\<lparr>role := ''teacher'', is_approved := True, approved_at := Some 100,
                          registered_date := Some 100, approved_by_id := JNull\<rparr>)"
proof -
  let ?cu = "payload_of (create_access_token ''k'' 0 admin_payload)"
  let ?u = "User 3 7 ''a@x.com'' ''auser'' ''Sup3r$ecretPass!'' None None ''pending'' False"
  note t = auth_requests_preserve_account_invariant
             [where db = "[rejected_account]" and now = 100
                 and rq = "ApproveUser Committed (approve_as_teacher 2) ?cu"
                 and c = Committed and salt = 7 and e = "''a@x.com''" and n = "''auser''"
                 and pw = "''Sup3r$ecretPass!''" and fn = None and ln = None
                 and request = "approve_as_teacher 2" and current_user = ?cu
                 and v = "''teacher''" and created = rejected_account and by_id = JNull]
  have i: "store_invariant [rejected_account]"
    by (simp add: store_invariant_def account_invariant_def rejected_account_def User_def)
  have cr: "create_user Committed [rejected_account] 7 ''a@x.com'' ''auser'' ''Sup3r$ecretPass!'' None None
              default_role default_is_approved = Inr (?u, [rejected_account, ?u])"
    by (simp add: create_user_def Let_def next_id_def default_role_def default_is_approved_def
          rejected_account_def User_def)
  have vr: "''teacher'' \<in> set valid_roles" by (simp add: valid_roles_def)
  have ap: "approve_user Committed 100 [rejected_account] (approve_as_teacher 2) ?cu
          = (Inr (ApproveUserResponse ''User b@x.com has been approved as teacher'' 2
                    ''teacher'' True),
             [rejected_account\<lparr>is_approved := True, approved_at := Some 100,
                registered_date := Some 100, approved_by_id := JNull, role := ''teacher'',
                is_rejected := False, rejection_reason := None,
                approval_notes := Some ''ok''\<rparr>])"
    by (simp add: approve_user_def requested_role_of_def Role_of_def query_first_def
          update_row_def rejected_account_def User_def approve_as_teacher_def Let_def
          token_defs)
  from t i have c1: "store_invariant (auth_step 100
           (ApproveUser Committed (approve_as_teacher 2) ?cu) [rejected_account])"
    by blast
  from ap have c2: "map role (snd (approve_user Committed 100 [rejected_account]
                      (approve_as_teacher 2) ?cu)) = [''teacher'']"
    by simp
  from t cr have c3: "account_invariant ?u" by blast
  from t vr have c4: "account_invariant
        (rejected_account\<lparr>role := ''teacher'', is_approved := True, approved_at := Some 100,
                          registered_date := Some 100, approved_by_id := JNull\<rparr>)"
    by blast
  from i c1 c2 cr c3 vr c4 show ?thesis by (intro conjI)
qed

end
